theory Spec2Isabelle
  imports Complex_Main "HOL-Library.AList"
begin

section \<open>JavaScript values as the two dashboard scripts see them\<close>

text \<open>
  The repository holds two browser scripts: the room-control view
  (\<^verbatim>\<open>src/unnamed/part_001\<close>) and the log/storage view
  (\<^verbatim>\<open>src/static/dashboard.js\<close>).  Both consume JSON that arrives over a
  server-sent event stream or as the body of a fetch response, so the values they
  handle are decoded JSON values and \<^verbatim>\<open>undefined\<close> (an absent property).

  A JSON number is the real value of the decoded double.  A string is the list of
  its characters, and its length counts them.  An object is the list of its own
  properties in insertion order; a property is read with \<open>map_of\<close>.
  \<^verbatim>\<open>undefined\<close> is \<open>None\<close> of \<open>json option\<close>.  The prototype chain is not
  modelled: a property is an own property, and what a value inherits appears only
  where a script calls it, \<^verbatim>\<open>forEach\<close> on arrays, \<^verbatim>\<open>toUpperCase\<close> on
  strings, \<^verbatim>\<open>toFixed\<close> on numbers, and \<^verbatim>\<open>length\<close> on arrays and strings.

  The model covers the state of each page, the stream handlers, the rendering of the
  room, both activity logs, the two control requests and the cleanup request.  The
  uptime display, the statistics requests and the storage request of the scripts are
  left out; no property below concerns them.
\<close>

datatype json =
    JNull
  | JBool bool
  | JNum real
  | JStr string
  | JArr "json list"
  | JObj "(string \<times> json) list"

type_synonym jsval = "json option"

text \<open>
  An exception value carries its \<^verbatim>\<open>message\<close>.  The text of the messages the
  engine itself produces is engine specific and is a parameter (\<open>engine_message\<close> below).
\<close>

datatype exn = Exn (message: string)

text \<open>
  What the scripts take from the JavaScript engine and never define themselves:
  \<^verbatim>\<open>JSON.parse\<close> (a thrown SyntaxError is \<open>Inl\<close>), \<^verbatim>\<open>JSON.stringify\<close>
  with its indentation, the conversion of a number to a string, of a string to a
  number (\<open>None\<close> is NaN), \<^verbatim>\<open>Number.prototype.toFixed\<close>, and the message of
  the TypeError the engine throws at a given site.
\<close>

record runtime =
  JSON_parse :: "string \<Rightarrow> exn + json"
  JSON_stringify :: "nat \<Rightarrow> json \<Rightarrow> string"
  Number_toString :: "real \<Rightarrow> string"
  StringToNumber :: "string \<Rightarrow> real option"
  toFixed :: "nat \<Rightarrow> real \<Rightarrow> string"
  engine_message :: "string \<Rightarrow> string"

text \<open>
  A computation that may throw: \<open>Done s\<close> is normal completion in state \<open>s\<close>,
  \<open>Threw e s\<close> is the exception \<open>e\<close> raised in state \<open>s\<close>.  The state mutated
  before the throw is kept, as it is in JavaScript.
\<close>

datatype 's result = Done 's | Threw exn 's

fun state_of :: "'s result \<Rightarrow> 's" where
  "state_of (Done s) = s"
| "state_of (Threw e s) = s"

fun and_then :: "'s result \<Rightarrow> ('s \<Rightarrow> 's result) \<Rightarrow> 's result" where
  "and_then (Done s) f = f s"
| "and_then (Threw e s) f = Threw e s"

definition TypeError :: "runtime \<Rightarrow> string \<Rightarrow> exn" where
  "TypeError R site = Exn (engine_message R site)"

subsection \<open>Coercions\<close>

text \<open>Truthiness (ToBoolean): \<^verbatim>\<open>undefined\<close>, \<^verbatim>\<open>null\<close>, \<^verbatim>\<open>false\<close>, \<^verbatim>\<open>0\<close>
  and the empty string are falsy; every other decoded value is truthy.\<close>

fun truthy :: "jsval \<Rightarrow> bool" where
  "truthy None = False"
| "truthy (Some JNull) = False"
| "truthy (Some (JBool b)) = b"
| "truthy (Some (JNum r)) = (r \<noteq> 0)"
| "truthy (Some (JStr s)) = (s \<noteq> [])"
| "truthy (Some (JArr xs)) = True"
| "truthy (Some (JObj kvs)) = True"

text \<open>\<^verbatim>\<open>a || b\<close>\<close>

definition js_or :: "jsval \<Rightarrow> jsval \<Rightarrow> jsval" where
  "js_or a b = (if truthy a then a else b)"

fun join :: "string \<Rightarrow> string list \<Rightarrow> string" where
  "join sep [] = []"
| "join sep [x] = x"
| "join sep (x # y # ys) = x @ sep @ join sep (y # ys)"

text \<open>ToString of a decoded value, as a template literal applies it.  An array is
  joined with commas, with \<^verbatim>\<open>null\<close> elements printed as the empty string.\<close>

fun ToString_json :: "runtime \<Rightarrow> json \<Rightarrow> string" where
  "ToString_json R JNull = ''null''"
| "ToString_json R (JBool b) = (if b then ''true'' else ''false'')"
| "ToString_json R (JNum r) = Number_toString R r"
| "ToString_json R (JStr s) = s"
| "ToString_json R (JArr xs) =
     join '','' (map (\<lambda>x. if x = JNull then [] else ToString_json R x) xs)"
| "ToString_json R (JObj kvs) = ''[object Object]''"

definition ToString :: "runtime \<Rightarrow> jsval \<Rightarrow> string" where
  "ToString R v = (case v of None \<Rightarrow> ''undefined'' | Some j \<Rightarrow> ToString_json R j)"

text \<open>ToNumber; \<open>None\<close> is NaN.  Arrays and objects go through their string form.\<close>

definition ToNumber :: "runtime \<Rightarrow> jsval \<Rightarrow> real option" where
  "ToNumber R v =
     (case v of
        None \<Rightarrow> None
      | Some JNull \<Rightarrow> Some 0
      | Some (JBool b) \<Rightarrow> Some (if b then 1 else 0)
      | Some (JNum r) \<Rightarrow> Some r
      | Some (JStr s) \<Rightarrow> StringToNumber R s
      | Some j \<Rightarrow> StringToNumber R (ToString_json R j))"

text \<open>\<^verbatim>\<open>v > n\<close> against a numeric literal: false when \<open>v\<close> converts to NaN.\<close>

definition js_gt :: "runtime \<Rightarrow> jsval \<Rightarrow> real \<Rightarrow> bool" where
  "js_gt R v n = (case ToNumber R v of None \<Rightarrow> False | Some x \<Rightarrow> x > n)"

text \<open>What a DOM text property (\<^verbatim>\<open>textContent\<close>) shows for an assigned value:
  \<^verbatim>\<open>null\<close> and \<^verbatim>\<open>undefined\<close> give the empty text.\<close>

definition dom_text :: "runtime \<Rightarrow> jsval \<Rightarrow> string" where
  "dom_text R v =
     (case v of None \<Rightarrow> [] | Some JNull \<Rightarrow> [] | Some j \<Rightarrow> ToString_json R j)"

text \<open>\<^verbatim>\<open>String.prototype.toUpperCase\<close> on the ASCII letters (the scripts pass
  ASCII type tags only).\<close>

definition upper_char :: "char \<Rightarrow> char" where
  "upper_char c =
     (case map_of (zip ''abcdefghijklmnopqrstuvwxyz'' ''ABCDEFGHIJKLMNOPQRSTUVWXYZ'') c of
        None \<Rightarrow> c
      | Some u \<Rightarrow> u)"

definition toUpperCase :: "string \<Rightarrow> string" where
  "toUpperCase s = map upper_char s"

subsection \<open>Reading and writing properties\<close>

definition index_keys :: "runtime \<Rightarrow> nat \<Rightarrow> string list" where
  "index_keys R n = map (\<lambda>i. Number_toString R (real i)) [0..<n]"

text \<open>The own enumerable properties of a value: those of an object, the indexed
  elements of an array, the indexed characters of a string, none of a number, a
  boolean or \<^verbatim>\<open>null\<close>.\<close>

fun own_props :: "runtime \<Rightarrow> json \<Rightarrow> (string \<times> json) list" where
  "own_props R (JObj kvs) = kvs"
| "own_props R (JArr xs) = zip (index_keys R (length xs)) xs"
| "own_props R (JStr s) = zip (index_keys R (length s)) (map (\<lambda>c. JStr [c]) s)"
| "own_props R _ = []"

fun has_length :: "json \<Rightarrow> nat option" where
  "has_length (JArr xs) = Some (length xs)"
| "has_length (JStr s) = Some (length s)"
| "has_length _ = None"

text \<open>\<^verbatim>\<open>v.k\<close> on a value that is not \<^verbatim>\<open>null\<close> or \<^verbatim>\<open>undefined\<close>.\<close>

definition read_prop :: "runtime \<Rightarrow> json \<Rightarrow> string \<Rightarrow> jsval" where
  "read_prop R v k =
     (case (if k = ''length'' then has_length v else None) of
        Some n \<Rightarrow> Some (JNum (real n))
      | None \<Rightarrow> map_of (own_props R v) k)"

text \<open>\<^verbatim>\<open>v.k\<close> in general: reading a property of \<^verbatim>\<open>null\<close> or \<^verbatim>\<open>undefined\<close>
  throws a TypeError.\<close>

definition get_prop :: "runtime \<Rightarrow> jsval \<Rightarrow> string \<Rightarrow> exn + jsval" where
  "get_prop R v k =
     (case v of
        None \<Rightarrow> Inl (TypeError R k)
      | Some JNull \<Rightarrow> Inl (TypeError R k)
      | Some j \<Rightarrow> Inr (read_prop R j k))"

text \<open>An object literal: a property whose value is \<^verbatim>\<open>undefined\<close> reads the same
  as an absent one, so it is left out.\<close>

fun obj_lit :: "(string \<times> jsval) list \<Rightarrow> (string \<times> json) list" where
  "obj_lit [] = []"
| "obj_lit ((k, None) # ps) = obj_lit ps"
| "obj_lit ((k, Some v) # ps) = (k, v) # obj_lit ps"

text \<open>\<^verbatim>\<open>Object.assign(target, source)\<close>: for each own key of the source in order,
  read the source's value for the key and set it on the target.\<close>

definition Object_assign ::
  "runtime \<Rightarrow> (string \<times> json) list \<Rightarrow> json \<Rightarrow> (string \<times> json) list" where
  "Object_assign R target source =
     fold (\<lambda>k t. case map_of (own_props R source) k of
                    None \<Rightarrow> t
                  | Some v \<Rightarrow> AList.update k v t)
          (map fst (own_props R source)) target"

section \<open>The room-control view: state and rendering\<close>

text \<open>
  The script keeps the room in the global object \<^verbatim>\<open>systemState\<close> and the user
  directory in the global \<^verbatim>\<open>users\<close>, and renders them into fixed elements of
  the page.  The page markup is not part of the scripts; the elements they look up
  by id are taken to exist.  A status element has a text and a class list; an icon
  element shows one of the glyphs the script and the markup use.
\<close>

datatype glyph =
    Bulb            \<comment> \<open>U+1F4A1, light on\<close>
  | DimBulb         \<comment> \<open>U+1F505, light off\<close>
  | DoorArrows      \<comment> \<open>U+1F6AA U+2194, door open\<close>
  | Door            \<comment> \<open>U+1F6AA, door closed\<close>
  | PersonCheck     \<comment> \<open>U+1F464 U+2713, presence detected\<close>
  | Person          \<comment> \<open>U+1F464, nobody\<close>
  | Sun             \<comment> \<open>U+2600, bright\<close>
  | SunBehindCloud  \<comment> \<open>U+1F324, partial\<close>
  | NewMoon         \<comment> \<open>U+1F311, dark\<close>
  | Unlocked        \<comment> \<open>U+1F513, override on\<close>
  | Locked          \<comment> \<open>U+1F512, override off\<close>

record element =
  textContent :: string
  className :: "string list"

text \<open>A child of the users list: a \<^verbatim>\<open>user-item\<close> with the person glyph and a
  display name, or the \<^verbatim>\<open>no-users\<close> placeholder.\<close>

datatype user_item = UserItem string | NoUsers

record room_dom =
  light_status :: element
  light_icon :: glyph
  door_status :: element
  door_icon :: glyph
  presence_status :: element
  presence_icon :: glyph
  luminosity_value :: string
  luminosity_icon :: glyph
  override_status :: element
  override_icon :: glyph
  toggle_override :: string
  users_list :: "user_item list"
  arduino_status :: element
  last_update :: string

text \<open>\<^verbatim>\<open>systemState\<close> as the script declares it (part_001, lines 9 to 19).\<close>

definition systemState_init :: "(string \<times> json) list" where
  "systemState_init =
     [(''door_state'', JBool False),
      (''light_state'', JBool False),
      (''user_present'', JBool False),
      (''luminosity'', JNum 0),
      (''last_update'', JNull),
      (''detected_user'', JNull),
      (''users_in_room'', JArr []),
      (''arduino_connected'', JBool False),
      (''manual_override'', JBool False)]"

definition updateLightStatus :: "(string \<times> json) list \<Rightarrow> room_dom \<Rightarrow> room_dom" where
  "updateLightStatus st d =
     (if truthy (map_of st ''light_state'')
      then d\<lparr>light_status := \<lparr>textContent = ''ON'', className = [''status-value'', ''status-on'']\<rparr>,
             light_icon := Bulb\<rparr>
      else d\<lparr>light_status := \<lparr>textContent = ''OFF'', className = [''status-value'', ''status-off'']\<rparr>,
             light_icon := DimBulb\<rparr>)"

definition updateDoorStatus :: "(string \<times> json) list \<Rightarrow> room_dom \<Rightarrow> room_dom" where
  "updateDoorStatus st d =
     (if truthy (map_of st ''door_state'')
      then d\<lparr>door_status := \<lparr>textContent = ''OPEN'', className = [''status-value'', ''status-active'']\<rparr>,
             door_icon := DoorArrows\<rparr>
      else d\<lparr>door_status := \<lparr>textContent = ''CLOSED'', className = [''status-value'', ''status-inactive'']\<rparr>,
             door_icon := Door\<rparr>)"

definition updatePresenceStatus :: "(string \<times> json) list \<Rightarrow> room_dom \<Rightarrow> room_dom" where
  "updatePresenceStatus st d =
     (if truthy (map_of st ''user_present'')
      then d\<lparr>presence_status := \<lparr>textContent = ''DETECTED'', className = [''status-value'', ''status-active'']\<rparr>,
             presence_icon := PersonCheck\<rparr>
      else d\<lparr>presence_status := \<lparr>textContent = ''NONE'', className = [''status-value'', ''status-inactive'']\<rparr>,
             presence_icon := Person\<rparr>)"

definition updateLuminosityStatus ::
  "runtime \<Rightarrow> (string \<times> json) list \<Rightarrow> room_dom \<Rightarrow> room_dom" where
  "updateLuminosityStatus R st d =
     (let d1 = d\<lparr>luminosity_value := dom_text R (map_of st ''luminosity'')\<rparr> in
      if js_gt R (map_of st ''luminosity'') 700 then d1\<lparr>luminosity_icon := Sun\<rparr>
      else if js_gt R (map_of st ''luminosity'') 300 then d1\<lparr>luminosity_icon := SunBehindCloud\<rparr>
      else d1\<lparr>luminosity_icon := NewMoon\<rparr>)"

definition updateOverrideStatus :: "(string \<times> json) list \<Rightarrow> room_dom \<Rightarrow> room_dom" where
  "updateOverrideStatus st d =
     (if truthy (map_of st ''manual_override'')
      then d\<lparr>override_status := \<lparr>textContent = ''ON'', className = [''status-value'', ''status-on'']\<rparr>,
             override_icon := Unlocked,
             toggle_override := ''Disable Override''\<rparr>
      else d\<lparr>override_status := \<lparr>textContent = ''OFF'', className = [''status-value'', ''status-off'']\<rparr>,
             override_icon := Locked,
             toggle_override := ''Enable Override''\<rparr>)"

text \<open>The body of the \<^verbatim>\<open>forEach\<close> of \<^verbatim>\<open>updateUsersInRoom\<close>, run over the
  array's elements in order.  \<^verbatim>\<open>users[userId]\<close> throws when the directory is
  \<^verbatim>\<open>null\<close>; the items appended before the throw stay.\<close>

fun forEach_user :: "runtime \<Rightarrow> json \<Rightarrow> json list \<Rightarrow> room_dom \<Rightarrow> room_dom result" where
  "forEach_user R us [] d = Done d"
| "forEach_user R us (userId # rest) d =
     (case get_prop R (Some us) (ToString_json R userId) of
        Inl e \<Rightarrow> Threw e d
      | Inr u \<Rightarrow>
          (let userName =
                 (if truthy u
                  then (case u of None \<Rightarrow> None | Some j \<Rightarrow> read_prop R j ''name'')
                  else Some (JStr (''User '' @ ToString_json R userId)))
           in forEach_user R us rest
                (d\<lparr>users_list := users_list d @ [UserItem (ToString R userName)]\<rparr>)))"

definition updateUsersInRoom ::
  "runtime \<Rightarrow> json \<Rightarrow> (string \<times> json) list \<Rightarrow> room_dom \<Rightarrow> room_dom result" where
  "updateUsersInRoom R us st d =
     (let d1 = d\<lparr>users_list := []\<rparr>;
          uir = map_of st ''users_in_room''
      in if truthy uir \<and>
            js_gt R (case uir of None \<Rightarrow> None | Some j \<Rightarrow> read_prop R j ''length'') 0
         then (case uir of
                 Some (JArr xs) \<Rightarrow> forEach_user R us xs d1
               | _ \<Rightarrow> Threw (TypeError R ''forEach'') d1)
         else Done (d1\<lparr>users_list := [NoUsers]\<rparr>))"

definition updateArduinoStatus :: "(string \<times> json) list \<Rightarrow> room_dom \<Rightarrow> room_dom" where
  "updateArduinoStatus st d =
     (if truthy (map_of st ''arduino_connected'')
      then d\<lparr>arduino_status := \<lparr>textContent = ''Connected'', className = [''stat-value'', ''status-on'']\<rparr>\<rparr>
      else d\<lparr>arduino_status := \<lparr>textContent = ''Disconnected'', className = [''stat-value'', ''status-off'']\<rparr>\<rparr>)"

text \<open>The seven render calls of \<^verbatim>\<open>updateSystemState\<close> (part_001, lines 30 to
  36), in the script's order.  A throw in the users list skips the two calls after
  it.\<close>

definition updateUI ::
  "runtime \<Rightarrow> json \<Rightarrow> (string \<times> json) list \<Rightarrow> room_dom \<Rightarrow> room_dom result" where
  "updateUI R us st d =
     and_then
       (updateUsersInRoom R us st
          (updateLuminosityStatus R st
             (updatePresenceStatus st (updateDoorStatus st (updateLightStatus st d)))))
       (\<lambda>d'. Done (updateOverrideStatus st (updateArduinoStatus st d')))"

section \<open>What both views share: diagnostics, the stream and its timers\<close>

text \<open>
  \<^verbatim>\<open>console.log\<close> and \<^verbatim>\<open>console.error\<close> write to the diagnostic channel; a
  record keeps the label and what was printed with it.
\<close>

datatype arg = Val jsval | Caught exn | StreamError

datatype diag = console_log string arg | console_error string arg

text \<open>The only callback either script hands to \<^verbatim>\<open>setTimeout\<close> is
  \<^verbatim>\<open>connectToEventSource\<close>.\<close>

datatype task = Reconnect

text \<open>
  The part of a page that both scripts have: the diagnostic channel, the
  \<^verbatim>\<open>connection-status\<close> element, the global \<^verbatim>\<open>eventSource\<close> (\<open>None\<close> while
  it is \<^verbatim>\<open>undefined\<close>; a stream is named by the order of its creation), the
  number of streams created so far, the streams closed so far, and the pending
  timeouts with the time (in milliseconds of the page's clock) at which each is due.
\<close>

record client =
  diagnostics :: "diag list"
  connectionStatus :: element
  eventSource :: "nat option"
  opened :: nat
  closed :: "nat list"
  timers :: "(nat \<times> task) list"
  clock :: nat

text \<open>\<^verbatim>\<open>classList.add\<close> and \<^verbatim>\<open>classList.remove\<close>\<close>

definition classList_add :: "string \<Rightarrow> element \<Rightarrow> element" where
  "classList_add c e =
     (if c \<in> set (className e) then e else e\<lparr>className := className e @ [c]\<rparr>)"

definition classList_remove :: "string \<Rightarrow> element \<Rightarrow> element" where
  "classList_remove c e = e\<lparr>className := removeAll c (className e)\<rparr>"

definition log_diag :: "diag \<Rightarrow> 'a client_scheme \<Rightarrow> 'a client_scheme" where
  "log_diag x p = p\<lparr>diagnostics := diagnostics p @ [x]\<rparr>"

text \<open>\<^verbatim>\<open>connectToEventSource\<close> up to the creation of the stream (part_001, lines
  222 to 227; dashboard.js, lines 28 to 33): an existing stream is closed, a new
  one is opened and stored in \<^verbatim>\<open>eventSource\<close>.  The three handlers it installs
  are the functions \<open>onopen\<close>, \<open>onmessage\<close> and \<open>onerror\<close> below.\<close>

definition connectToEventSource :: "'a client_scheme \<Rightarrow> 'a client_scheme" where
  "connectToEventSource p =
     (let p1 = (case eventSource p of
                  None \<Rightarrow> p
                | Some h \<Rightarrow> p\<lparr>closed := closed p @ [h]\<rparr>)
      in p1\<lparr>eventSource := Some (opened p1), opened := Suc (opened p1)\<rparr>)"

text \<open>\<^verbatim>\<open>eventSource.onopen\<close>, the same text in both scripts.\<close>

definition onopen :: "'a client_scheme \<Rightarrow> 'a client_scheme" where
  "onopen p =
     (let p1 = log_diag (console_log ''Connection to server established.'' (Val None)) p
      in p1\<lparr>connectionStatus :=
               classList_add ''connected''
                 (classList_remove ''disconnected''
                    ((connectionStatus p1)\<lparr>textContent := ''Connected''\<rparr>))\<rparr>)"

text \<open>\<^verbatim>\<open>setTimeout(f, ms)\<close>: the callback becomes due \<open>ms\<close> after the present
  time of the page's clock.\<close>

definition setTimeout :: "task \<Rightarrow> nat \<Rightarrow> 'a client_scheme \<Rightarrow> 'a client_scheme" where
  "setTimeout f ms p = p\<lparr>timers := timers p @ [(clock p + ms, f)]\<rparr>"

definition run_task :: "task \<Rightarrow> 'a client_scheme \<Rightarrow> 'a client_scheme" where
  "run_task f p = (case f of Reconnect \<Rightarrow> connectToEventSource p)"

text \<open>The event loop over a quiet interval: the clock advances by \<open>dt\<close>, and every
  timeout due by then runs, in the order in which the timeouts were set (all are set
  with the same delay).  A timeout that is not yet due stays pending.\<close>

definition elapse :: "nat \<Rightarrow> 'a client_scheme \<Rightarrow> 'a client_scheme" where
  "elapse dt p =
     (let t = clock p + dt;
          due = filter (\<lambda>x. fst x \<le> t) (timers p);
          later = filter (\<lambda>x. \<not> fst x \<le> t) (timers p)
      in fold run_task (map snd due) (p\<lparr>clock := t, timers := later\<rparr>))"

text \<open>The spec's ConnectionStatus, read off the \<^verbatim>\<open>connection-status\<close> element.\<close>

definition shows_disconnected :: "'a client_scheme \<Rightarrow> bool" where
  "shows_disconnected p =
     (textContent (connectionStatus p) = ''Disconnected'' \<and>
      ''disconnected'' \<in> set (className (connectionStatus p)) \<and>
      ''connected'' \<notin> set (className (connectionStatus p)))"

section \<open>The room-control view: the activity log and the event handlers\<close>

text \<open>A child of the \<^verbatim>\<open>console\<close> element as \<^verbatim>\<open>addLogEntry\<close> of part_001
  builds it: the texts of its timestamp, type and message spans, the class of the
  type span, and the optional user and details children.\<close>

record log_entry =
  entry_timestamp :: string
  entry_type_class :: string
  entry_type :: string
  entry_message :: string
  entry_user :: "string option"
  entry_details :: "string option"

record room_page = client +
  systemState :: "(string \<times> json) list"
  users :: json
  dom :: room_dom
  console :: "log_entry list"

text \<open>The loop that closes both \<^verbatim>\<open>addLogEntry\<close> functions:
  \<^verbatim>\<open>while (children.length > cap) removeChild(firstChild)\<close>.\<close>

function removeOldest :: "nat \<Rightarrow> 'a list \<Rightarrow> 'a list" where
  "removeOldest cap xs = (if length xs > cap then removeOldest cap (tl xs) else xs)"
  by pat_completeness auto
termination
  by (relation "measure (\<lambda>(cap, xs). length xs)") auto

declare removeOldest.simps [simp del]

text \<open>\<^verbatim>\<open>data.type?.toUpperCase() || 'INFO'\<close>: the optional chain stops at
  \<^verbatim>\<open>null\<close> and \<^verbatim>\<open>undefined\<close>; a value that is not a string has no
  \<^verbatim>\<open>toUpperCase\<close> and the call throws.\<close>

definition type_label :: "runtime \<Rightarrow> jsval \<Rightarrow> exn + string" where
  "type_label R ty =
     (case ty of
        None \<Rightarrow> Inr ''INFO''
      | Some JNull \<Rightarrow> Inr ''INFO''
      | Some (JStr s) \<Rightarrow> Inr (if toUpperCase s = [] then ''INFO'' else toUpperCase s)
      | Some _ \<Rightarrow> Inl (TypeError R ''toUpperCase''))"

text \<open>\<^verbatim>\<open>addLogEntry\<close> of the room-control view (part_001, lines 168 to 219).
  \<open>now\<close> is what \<^verbatim>\<open>new Date().toLocaleTimeString()\<close> returns at the call.  The
  scroll position, which the function sets when auto-scroll is on, is not part of
  the model.\<close>

definition addLogEntry_room ::
  "runtime \<Rightarrow> string \<Rightarrow> jsval \<Rightarrow> room_page \<Rightarrow> room_page result" where
  "addLogEntry_room R now data p =
     (case get_prop R data ''timestamp'' of
        Inl e \<Rightarrow> Threw e p
      | Inr ts \<Rightarrow>
          (let field = (\<lambda>k. case data of None \<Rightarrow> None | Some j \<Rightarrow> read_prop R j k) in
           case type_label R (field ''type'') of
             Inl e \<Rightarrow> Threw e p
           | Inr label \<Rightarrow>
               Done (p\<lparr>console := removeOldest 100 (console p @
                 [\<lparr>entry_timestamp = dom_text R (js_or ts (Some (JStr now))),
                   entry_type_class =
                     ''log-type log-type-'' @ ToString R (js_or (field ''type'') (Some (JStr ''info''))),
                   entry_type = label,
                   entry_message = dom_text R (js_or (field ''message'') (Some (JStr ''''))),
                   entry_user =
                     (if truthy (field ''user'') then Some (dom_text R (field ''user'')) else None),
                   entry_details =
                     (case field ''details'' of
                        None \<Rightarrow> None
                      | Some j \<Rightarrow> if truthy (Some j) then Some (JSON_stringify R 2 j) else None)\<rparr>])\<rparr>)))"

text \<open>\<^verbatim>\<open>updateSystemState\<close> (part_001, lines 25 to 42).\<close>

definition updateSystemState :: "runtime \<Rightarrow> json \<Rightarrow> room_page \<Rightarrow> room_page result" where
  "updateSystemState R newState p =
     (let p1 = p\<lparr>systemState := Object_assign R (systemState p) newState\<rparr> in
      case updateUI R (users p1) (systemState p1) (dom p1) of
        Threw e d \<Rightarrow> Threw e (p1\<lparr>dom := d\<rparr>)
      | Done d \<Rightarrow>
          (case get_prop R (Some newState) ''last_update'' of
             Inl e \<Rightarrow> Threw e (p1\<lparr>dom := d\<rparr>)
           | Inr lu \<Rightarrow>
               Done (p1\<lparr>dom := (if truthy lu then d\<lparr>last_update := ''Just now''\<rparr> else d)\<rparr>)))"

text \<open>An assignment \<^verbatim>\<open>obj.k = v\<close>; a property set to \<^verbatim>\<open>undefined\<close> reads as
  an absent one.\<close>

definition set_prop :: "string \<Rightarrow> jsval \<Rightarrow> (string \<times> json) list \<Rightarrow> (string \<times> json) list" where
  "set_prop k v obj = (case v of None \<Rightarrow> AList.delete k obj | Some j \<Rightarrow> AList.update k j obj)"

text \<open>The body of the \<^verbatim>\<open>try\<close> of \<^verbatim>\<open>eventSource.onmessage\<close> after the frame
  is decoded (part_001, lines 239 to 276).\<close>

definition dispatch_room :: "runtime \<Rightarrow> string \<Rightarrow> json \<Rightarrow> room_page \<Rightarrow> room_page result" where
  "dispatch_room R now data p =
     (case get_prop R (Some data) ''type'' of
        Inl e \<Rightarrow> Threw e p
      | Inr ty \<Rightarrow>
          (let field = read_prop R data in
           if ty = Some (JStr ''initial_state'') \<or> ty = Some (JStr ''update'') then
             and_then
               (case field ''system_state'' of
                  None \<Rightarrow> Done p
                | Some ss \<Rightarrow> if truthy (Some ss) then updateSystemState R ss p else Done p)
               (\<lambda>p1. if ty = Some (JStr ''update'')
                      then addLogEntry_room R now
                             (Some (JObj (obj_lit
                                [(''type'', Some (JStr ''update'')),
                                 (''timestamp'', field ''timestamp''),
                                 (''message'', Some (JStr ''System state updated'')),
                                 (''details'', field ''data'')]))) p1
                      else Done p1)
           else if ty = Some (JStr ''welcome'') then
             addLogEntry_room R now
               (Some (JObj (obj_lit
                  [(''type'', Some (JStr ''welcome'')),
                   (''timestamp'', field ''timestamp''),
                   (''message'', Some (JStr (''Welcome '' @ ToString R (field ''user_name'') @ ''!''))),
                   (''user'', field ''user_name'')]))) p
           else if ty = Some (JStr ''override'') then
             and_then
               (addLogEntry_room R now
                  (Some (JObj (obj_lit
                     [(''type'', Some (JStr ''control'')),
                      (''timestamp'', field ''timestamp''),
                      (''message'', Some (JStr (''Manual override '' @
                          (if truthy (field ''enabled'') then ''enabled'' else ''disabled'')))),
                      (''details'', Some (JObj (obj_lit [(''enabled'', field ''enabled'')])))]))) p)
               (\<lambda>p1. let st = set_prop ''manual_override'' (field ''enabled'') (systemState p1)
                      in Done (p1\<lparr>systemState := st, dom := updateOverrideStatus st (dom p1)\<rparr>))
           else Done p))"

text \<open>\<^verbatim>\<open>eventSource.onmessage\<close> of the room-control view (part_001, lines 236 to
  280): whatever the \<^verbatim>\<open>try\<close> block throws is caught and reported.\<close>

definition onmessage_room :: "runtime \<Rightarrow> string \<Rightarrow> string \<Rightarrow> room_page \<Rightarrow> room_page" where
  "onmessage_room R now raw p =
     (case JSON_parse R raw of
        Inl e \<Rightarrow> log_diag (console_error ''Error parsing event data:'' (Caught e)) p
      | Inr data \<Rightarrow>
          (case dispatch_room R now data
                  (log_diag (console_log ''Event received:'' (Val (Some data))) p) of
             Done p' \<Rightarrow> p'
           | Threw e p' \<Rightarrow> log_diag (console_error ''Error parsing event data:'' (Caught e)) p'))"

text \<open>\<^verbatim>\<open>eventSource.onerror\<close> of the room-control view (part_001, lines 282 to
  294).\<close>

definition onerror_room :: "room_page \<Rightarrow> room_page" where
  "onerror_room p =
     (let p1 = log_diag (console_log ''EventSource connection error:'' StreamError) p;
          p2 = p1\<lparr>connectionStatus :=
                    classList_add ''disconnected''
                      (classList_remove ''connected''
                         ((connectionStatus p1)\<lparr>textContent := ''Disconnected''\<rparr>))\<rparr>;
          p3 = p2\<lparr>dom := (dom p2)\<lparr>arduino_status :=
                    classList_add ''error-state''
                      ((arduino_status (dom p2))\<lparr>textContent := ''Disconnected''\<rparr>)\<rparr>\<rparr>
      in setTimeout Reconnect 5000 p3)"

section \<open>The room-control view: requests\<close>

text \<open>
  A \<^verbatim>\<open>fetch(...).then(response => response.json())\<close> chain has two outcomes
  for the callbacks that follow it: the promise is rejected with an error (the
  transport failed, or the body was not JSON), or the decoded body is passed on.
\<close>

datatype outcome = Rejected exn | Body json

record request =
  url :: string
  body :: json

text \<open>\<^verbatim>\<open>fetchUsers\<close> (part_001, lines 298 to 306), from the arrival of the
  outcome on.\<close>

definition fetchUsers_settle :: "runtime \<Rightarrow> outcome \<Rightarrow> room_page \<Rightarrow> room_page" where
  "fetchUsers_settle R out p =
     (case out of
        Rejected e \<Rightarrow> log_diag (console_error ''Error fetching users:'' (Caught e)) p
      | Body data \<Rightarrow>
          (let p1 = p\<lparr>users := data\<rparr> in
           case updateUsersInRoom R (users p1) (systemState p1) (dom p1) of
             Done d \<Rightarrow> p1\<lparr>dom := d\<rparr>
           | Threw e d \<Rightarrow>
               log_diag (console_error ''Error fetching users:'' (Caught e)) (p1\<lparr>dom := d\<rparr>)))"

text \<open>\<^verbatim>\<open>controlLight(command)\<close> (part_001, lines 309 to 345): the request it
  sends at the click, the \<^verbatim>\<open>then\<close> callback on the decoded body, the
  \<^verbatim>\<open>catch\<close> callback, and the two put together.\<close>

definition controlLight_request :: "string \<Rightarrow> room_page \<Rightarrow> request" where
  "controlLight_request command p =
     \<lparr>url = ''/api/light/control'',
      body = JObj (obj_lit [(''command'', Some (JStr command)),
                            (''override'', map_of (systemState p) ''manual_override'')])\<rparr>"

definition controlLight_then ::
  "runtime \<Rightarrow> string \<Rightarrow> string \<Rightarrow> json \<Rightarrow> room_page \<Rightarrow> room_page result" where
  "controlLight_then R now command data p =
     (case get_prop R (Some data) ''status'' of
        Inl e \<Rightarrow> Threw e p
      | Inr status \<Rightarrow>
          if status = Some (JStr ''success'') then
            and_then
              (addLogEntry_room R now
                 (Some (JObj (obj_lit
                    [(''type'', Some (JStr ''control'')),
                     (''message'', Some (JStr (''Light turned '' @ command @ '' successfully'')))]))) p)
              (\<lambda>p1. case read_prop R data ''state'' of
                       None \<Rightarrow> Done p1
                     | Some st \<Rightarrow> if truthy (Some st) then updateSystemState R st p1 else Done p1)
          else
            addLogEntry_room R now
              (Some (JObj (obj_lit
                 [(''type'', Some (JStr ''error'')),
                  (''message'', Some (JStr (''Failed to turn '' @ command @ '' light: '' @
                      ToString R (read_prop R data ''message''))))]))) p)"

definition controlLight_catch :: "runtime \<Rightarrow> string \<Rightarrow> exn \<Rightarrow> room_page \<Rightarrow> room_page result" where
  "controlLight_catch R now error p =
     addLogEntry_room R now
       (Some (JObj (obj_lit
          [(''type'', Some (JStr ''error'')),
           (''message'', Some (JStr (''Error controlling light: '' @ message error)))])))
       (log_diag (console_error ''Error controlling light:'' (Caught error)) p)"

definition controlLight_settle ::
  "runtime \<Rightarrow> string \<Rightarrow> string \<Rightarrow> outcome \<Rightarrow> room_page \<Rightarrow> room_page" where
  "controlLight_settle R now command out p =
     (case out of
        Rejected e \<Rightarrow> state_of (controlLight_catch R now e p)
      | Body data \<Rightarrow>
          (case controlLight_then R now command data p of
             Done p' \<Rightarrow> p'
           | Threw e p' \<Rightarrow> state_of (controlLight_catch R now e p')))"

text \<open>\<^verbatim>\<open>toggleOverride\<close> (part_001, lines 348 to 383).  The click computes
  \<^verbatim>\<open>newState\<close> and sends the request; the callbacks keep \<^verbatim>\<open>newState\<close> in
  their closure.\<close>

definition toggleOverride_newState :: "room_page \<Rightarrow> bool" where
  "toggleOverride_newState p = (\<not> truthy (map_of (systemState p) ''manual_override''))"

definition toggleOverride_click :: "room_page \<Rightarrow> room_page \<times> request" where
  "toggleOverride_click p =
     (p, \<lparr>url = ''/api/override'',
          body = JObj [(''enable'', JBool (toggleOverride_newState p))]\<rparr>)"

definition toggleOverride_then ::
  "runtime \<Rightarrow> string \<Rightarrow> bool \<Rightarrow> json \<Rightarrow> room_page \<Rightarrow> room_page result" where
  "toggleOverride_then R now newState data p =
     (case get_prop R (Some data) ''status'' of
        Inl e \<Rightarrow> Threw e p
      | Inr status \<Rightarrow>
          if status = Some (JStr ''success'') then
            and_then
              (addLogEntry_room R now
                 (Some (JObj (obj_lit
                    [(''type'', Some (JStr ''control'')),
                     (''message'', Some (JStr (''Manual override '' @
                         (if newState then ''enabled'' else ''disabled''))))]))) p)
              (\<lambda>p1. case read_prop R data ''state'' of
                       None \<Rightarrow> Done p1
                     | Some st \<Rightarrow> if truthy (Some st) then updateSystemState R st p1 else Done p1)
          else
            addLogEntry_room R now
              (Some (JObj (obj_lit
                 [(''type'', Some (JStr ''error'')),
                  (''message'', Some (JStr (''Failed to toggle override: '' @
                      ToString R (read_prop R data ''message''))))]))) p)"

definition toggleOverride_catch :: "runtime \<Rightarrow> string \<Rightarrow> exn \<Rightarrow> room_page \<Rightarrow> room_page result" where
  "toggleOverride_catch R now error p =
     addLogEntry_room R now
       (Some (JObj (obj_lit
          [(''type'', Some (JStr ''error'')),
           (''message'', Some (JStr (''Error toggling override: '' @ message error)))])))
       (log_diag (console_error ''Error toggling override:'' (Caught error)) p)"

definition toggleOverride_settle ::
  "runtime \<Rightarrow> string \<Rightarrow> bool \<Rightarrow> outcome \<Rightarrow> room_page \<Rightarrow> room_page" where
  "toggleOverride_settle R now newState out p =
     (case out of
        Rejected e \<Rightarrow> state_of (toggleOverride_catch R now e p)
      | Body data \<Rightarrow>
          (case toggleOverride_then R now newState data p of
             Done p' \<Rightarrow> p'
           | Threw e p' \<Rightarrow> state_of (toggleOverride_catch R now e p')))"

section \<open>The log/storage view\<close>

text \<open>
  A child of the \<^verbatim>\<open>console\<close> element of the log/storage view: the entry
  \<^verbatim>\<open>addLogEntry\<close> builds for a \<^verbatim>\<open>message\<close> event (timestamp, source, status
  and the remaining data as JSON text), the entry it builds for anything else (one
  text), and the entry the cleanup button's handler builds (the clock time, the tag
  \<^verbatim>\<open>SYSTEM\<close> and a message).
\<close>

datatype dash_entry =
    MessageEntry string string string string
  | TextEntry string
  | SystemEntry string string

record stats_dom =
  total_messages :: string
  messages_today :: string
  last_seen :: string

record button =
  button_text :: string
  disabled :: bool

record dash_page = client +
  dash_console :: "dash_entry list"
  stats :: stats_dom
  cleanup_logs :: button

text \<open>\<^verbatim>\<open>addLogEntry\<close> of the log/storage view (dashboard.js, lines 72 to 123).
  A \<^verbatim>\<open>message\<close> event reads \<^verbatim>\<open>data.data.source\<close>, which throws when
  \<^verbatim>\<open>data.data\<close> is absent or \<^verbatim>\<open>null\<close>; the spread
  \<^verbatim>\<open>{...data.data}\<close> copies the own properties.\<close>

definition addLogEntry_dash :: "runtime \<Rightarrow> json \<Rightarrow> dash_page \<Rightarrow> dash_page result" where
  "addLogEntry_dash R data p0 =
     (let p = log_diag (console_log ''Adding log entry for:'' (Val (Some data))) p0 in
      case get_prop R (Some data) ''type'' of
        Inl e \<Rightarrow> Threw e p
      | Inr ty \<Rightarrow>
          if ty = Some (JStr ''stats'') then Done p
          else if ty = Some (JStr ''message'') then
            (let dd = read_prop R data ''data'' in
             case get_prop R dd ''source'' of
               Inl e \<Rightarrow> Threw e p
             | Inr source \<Rightarrow>
                 (case get_prop R dd ''status'' of
                    Inl e \<Rightarrow> Threw e p
                  | Inr status \<Rightarrow>
                      (let dataToShow =
                             AList.delete ''status'' (AList.delete ''source''
                               (case dd of None \<Rightarrow> [] | Some j \<Rightarrow> own_props R j))
                       in Done (p\<lparr>dash_console := removeOldest 500 (dash_console p @
                            [MessageEntry
                               (dom_text R (read_prop R data ''timestamp''))
                               (dom_text R (js_or source (Some (JStr ''unknown''))))
                               (dom_text R (js_or status (Some (JStr ''''))))
                               (JSON_stringify R 2 (JObj dataToShow))])\<rparr>))))
          else
            Done (p\<lparr>dash_console := removeOldest 500 (dash_console p @
              [TextEntry (case data of JStr s \<Rightarrow> s | _ \<Rightarrow> JSON_stringify R 0 data)])\<rparr>))"

text \<open>The text of a "last seen" tile (dashboard.js, lines 141 to 151) for a
  difference of \<open>d\<close> whole seconds; \<open>None\<close> is NaN, for which every comparison
  fails.\<close>

definition lastSeenText :: "runtime \<Rightarrow> real option \<Rightarrow> string" where
  "lastSeenText R d =
     (case d of
        None \<Rightarrow> ''NaNd ago''
      | Some n \<Rightarrow>
          if n < 60 then Number_toString R n @ ''s ago''
          else if n < 3600 then Number_toString R (of_int \<lfloor>n / 60\<rfloor>) @ ''m ago''
          else if n < 86400 then Number_toString R (of_int \<lfloor>n / 3600\<rfloor>) @ ''h ago''
          else Number_toString R (of_int \<lfloor>n / 86400\<rfloor>) @ ''d ago'')"

text \<open>\<^verbatim>\<open>updateStats\<close> (dashboard.js, lines 126 to 155).  \<open>since\<close> gives, for the
  value of \<^verbatim>\<open>last_seen\<close>, the whole seconds between that date and the time of
  the call.\<close>

definition updateStats ::
  "runtime \<Rightarrow> (json \<Rightarrow> real option) \<Rightarrow> jsval \<Rightarrow> dash_page \<Rightarrow> dash_page" where
  "updateStats R since st p =
     (case st of
        None \<Rightarrow> p
      | Some j \<Rightarrow>
          if \<not> truthy (Some j) then p
          else
            (let p1 = log_diag (console_log ''Updating stats:'' (Val (Some j))) p;
                 s1 = (stats p1)\<lparr>
                        total_messages := dom_text R (js_or (read_prop R j ''total_messages'') (Some (JNum 0))),
                        messages_today := dom_text R (js_or (read_prop R j ''messages_today'') (Some (JNum 0)))\<rparr>
             in case read_prop R j ''last_seen'' of
                  None \<Rightarrow> p1\<lparr>stats := s1\<rparr>
                | Some ls \<Rightarrow>
                    if truthy (Some ls)
                    then p1\<lparr>stats := s1\<lparr>last_seen := lastSeenText R (since ls)\<rparr>\<rparr>
                    else p1\<lparr>stats := s1\<rparr>))"

text \<open>\<^verbatim>\<open>eventSource.onmessage\<close> of the log/storage view (dashboard.js, lines 42
  to 58).\<close>

definition onmessage_dash ::
  "runtime \<Rightarrow> (json \<Rightarrow> real option) \<Rightarrow> string \<Rightarrow> dash_page \<Rightarrow> dash_page" where
  "onmessage_dash R since raw p0 =
     (let p = log_diag (console_log ''Raw event received:'' (Val (Some (JStr raw)))) p0;
          caught = (\<lambda>e q. log_diag (console_error ''Raw event data:'' (Val (Some (JStr raw))))
                            (log_diag (console_error ''Error parsing event data:'' (Caught e)) q))
      in case JSON_parse R raw of
           Inl e \<Rightarrow> caught e p
         | Inr data \<Rightarrow>
             (case addLogEntry_dash R data
                     (log_diag (console_log ''Parsed event data:'' (Val (Some data))) p) of
                Threw e p' \<Rightarrow> caught e p'
              | Done p' \<Rightarrow>
                  if read_prop R data ''type'' = Some (JStr ''stats'')
                  then updateStats R since (read_prop R data ''stats'') p'
                  else p'))"

text \<open>\<^verbatim>\<open>eventSource.onerror\<close> of the log/storage view (dashboard.js, lines 60 to
  68).\<close>

definition onerror_dash :: "dash_page \<Rightarrow> dash_page" where
  "onerror_dash p =
     (let p1 = log_diag (console_log ''EventSource connection error:'' StreamError) p;
          p2 = p1\<lparr>connectionStatus :=
                    classList_add ''disconnected''
                      (classList_remove ''connected''
                         ((connectionStatus p1)\<lparr>textContent := ''Disconnected''\<rparr>))\<rparr>
      in setTimeout Reconnect 5000 p2)"

text \<open>The click handler of the cleanup button (dashboard.js, lines 199 to 242):
  what the click does at once, the \<^verbatim>\<open>then\<close> callback on the decoded body, and
  the two callbacks put together.  The entry is appended to the console directly,
  not through \<^verbatim>\<open>addLogEntry\<close>.\<close>

definition cleanup_click :: "dash_page \<Rightarrow> dash_page" where
  "cleanup_click p = p\<lparr>cleanup_logs := \<lparr>button_text = ''Cleaning...'', disabled = True\<rparr>\<rparr>"

definition cleanup_then :: "runtime \<Rightarrow> string \<Rightarrow> json \<Rightarrow> dash_page \<Rightarrow> dash_page result" where
  "cleanup_then R now data p0 =
     (let p = log_diag (console_log ''Cleanup result:'' (Val (Some data))) p0;
          finish = (\<lambda>msg q. q\<lparr>dash_console := dash_console q @ [SystemEntry now msg],
                              cleanup_logs := \<lparr>button_text = ''Clean Old Logs'', disabled = False\<rparr>\<rparr>)
      in case get_prop R (Some data) ''error'' of
           Inl e \<Rightarrow> Threw e p
         | Inr err \<Rightarrow>
             if truthy err then Done (finish (''Error: '' @ ToString R err) p)
             else
               (case read_prop R data ''space_freed_mb'' of
                  Some (JNum mb) \<Rightarrow>
                    (let msg = ''Cleaned up '' @ ToString R (read_prop R data ''files_deleted'') @
                               '' files, freed '' @ toFixed R 2 mb @ '' MB''
                     in if truthy (read_prop R data ''forced'') then
                          Done (finish (msg @ '' (forced cleanup)'')
                            (if truthy (read_prop R data ''force_cleanup'')
                             then p\<lparr>stats := (stats p)\<lparr>total_messages := ''0'', messages_today := ''0''\<rparr>\<rparr>
                             else p))
                        else Done (finish msg p))
                | _ \<Rightarrow> Threw (TypeError R ''toFixed'') p))"

definition cleanup_settle :: "runtime \<Rightarrow> string \<Rightarrow> outcome \<Rightarrow> dash_page \<Rightarrow> dash_page" where
  "cleanup_settle R now out p =
     (let failed = (\<lambda>e q. (log_diag (console_error ''Error during cleanup:'' (Caught e)) q)
                             \<lparr>cleanup_logs := \<lparr>button_text = ''Clean Old Logs'', disabled = False\<rparr>\<rparr>)
      in case out of
           Rejected e \<Rightarrow> failed e p
         | Body data \<Rightarrow>
             (case cleanup_then R now data p of
                Done p' \<Rightarrow> p'
              | Threw e p' \<Rightarrow> failed e p'))"

section \<open>Sequences of events, and what the properties below speak of\<close>

text \<open>Frames handed to \<^verbatim>\<open>onmessage\<close> of the room-control view in arrival
  order; each comes with the clock reading \<^verbatim>\<open>toLocaleTimeString\<close> would give
  at its arrival.\<close>

definition receive_room :: "runtime \<Rightarrow> (string \<times> string) list \<Rightarrow> room_page \<Rightarrow> room_page" where
  "receive_room R frames p = fold (\<lambda>f. onmessage_room R (fst f) (snd f)) frames p"

text \<open>A decoded event whose type is \<^verbatim>\<open>update\<close> or \<^verbatim>\<open>initial_state\<close>.\<close>

definition is_state_event :: "runtime \<Rightarrow> json \<Rightarrow> bool" where
  "is_state_event R data =
     (read_prop R data ''type'' = Some (JStr ''update'') \<or>
      read_prop R data ''type'' = Some (JStr ''initial_state''))"

text \<open>The fields an event's \<^verbatim>\<open>system_state\<close> payload carries, with their values;
  none when the payload is absent or falsy.\<close>

definition payload_fields :: "runtime \<Rightarrow> json \<Rightarrow> (string \<times> json) list" where
  "payload_fields R data =
     (case read_prop R data ''system_state'' of
        None \<Rightarrow> []
      | Some ss \<Rightarrow> if truthy (Some ss) then own_props R ss else [])"

text \<open>Last write wins, in the spec's words: the value of field \<open>k\<close> in the last
  payload of the sequence that carries \<open>k\<close>, if any payload does.\<close>

fun last_write :: "string \<Rightarrow> (string \<times> json) list list \<Rightarrow> json option" where
  "last_write k [] = None"
| "last_write k (w # ws) =
     (case last_write k ws of
        Some v \<Rightarrow> Some v
      | None \<Rightarrow> map_of w k)"

text \<open>One stream drop followed by five quiet seconds, in each view.\<close>

definition drop_and_wait_room :: "room_page \<Rightarrow> room_page" where
  "drop_and_wait_room p = elapse 5000 (onerror_room p)"

definition drop_and_wait_dash :: "dash_page \<Rightarrow> dash_page" where
  "drop_and_wait_dash p = elapse 5000 (onerror_dash p)"

text \<open>The entry \<^verbatim>\<open>addLogEntry\<close> of the room-control view builds for an object
  literal that has a type tag and a message and nothing else.\<close>

definition plain_entry :: "string \<Rightarrow> string \<Rightarrow> string \<Rightarrow> log_entry" where
  "plain_entry now tag msg =
     \<lparr>entry_timestamp = now,
      entry_type_class = ''log-type log-type-'' @ tag,
      entry_type = toUpperCase tag,
      entry_message = msg,
      entry_user = None,
      entry_details = None\<rparr>"

text \<open>A state transformer applied to the state a computation ends in, and a page
  with its diagnostic channel emptied: two pages that agree once the channel is
  emptied differ in their diagnostic records only.\<close>

fun map_result :: "('s \<Rightarrow> 's) \<Rightarrow> 's result \<Rightarrow> 's result" where
  "map_result f (Done s) = Done (f s)"
| "map_result f (Threw e s) = Threw e (f s)"

definition no_diag :: "'a client_scheme \<Rightarrow> 'a client_scheme" where
  "no_diag p = p\<lparr>diagnostics := []\<rparr>"

text \<open>One entry was appended to a log of capacity \<open>cap\<close>: the new children are
  the old ones followed by one entry, cut back to the capacity from the oldest end.\<close>

definition appends_one :: "nat \<Rightarrow> 'a list \<Rightarrow> 'a list \<Rightarrow> bool" where
  "appends_one cap old new = (\<exists>e. new = removeOldest cap (old @ [e]))"

text \<open>The \<^verbatim>\<open>system_state\<close> payload of an event, if it has one that is truthy, is
  merged and rendered without an exception.\<close>

definition merges_cleanly :: "runtime \<Rightarrow> json \<Rightarrow> room_page \<Rightarrow> bool" where
  "merges_cleanly R data p =
     (case read_prop R data ''system_state'' of
        None \<Rightarrow> True
      | Some ss \<Rightarrow> if truthy (Some ss) then (\<exists>q. updateSystemState R ss p = Done q) else True)"

text \<open>What the tiles show: the light, door, presence and luminosity tiles, which
  \<^verbatim>\<open>updateSystemState\<close> renders before the users list, and the override and
  Arduino tiles, which it renders after.\<close>

definition sensor_tiles ::
  "room_dom \<Rightarrow> (element \<times> glyph) \<times> (element \<times> glyph) \<times> (element \<times> glyph) \<times> (string \<times> glyph)" where
  "sensor_tiles d =
     ((light_status d, light_icon d), (door_status d, door_icon d),
      (presence_status d, presence_icon d), (luminosity_value d, luminosity_icon d))"

definition override_tiles :: "room_dom \<Rightarrow> (element \<times> glyph \<times> string) \<times> element" where
  "override_tiles d =
     ((override_status d, override_icon d, toggle_override d), arduino_status d)"

subsection \<open>Concrete inputs\<close>

text \<open>A page of each view as it stands when its script starts, a runtime whose
  \<^verbatim>\<open>JSON.parse\<close> knows a handful of frames (everything else is a syntax error)
  and whose printers return fixed texts, and a clock.\<close>

definition frame_bright :: string where
  \<open>frame_bright = ''{"type":"update","system_state":{"light_state":true,"luminosity":812}}''\<close>

definition event_bright :: json where
  "event_bright =
     JObj [(''type'', JStr ''update''),
           (''system_state'', JObj [(''light_state'', JBool True), (''luminosity'', JNum 812)])]"

definition frame_dim :: string where
  \<open>frame_dim = ''{"type":"update","system_state":{"luminosity":120}}''\<close>

definition event_dim :: json where
  "event_dim =
     JObj [(''type'', JStr ''update''),
           (''system_state'', JObj [(''luminosity'', JNum 120)])]"

definition frame_heartbeat :: string where
  \<open>frame_heartbeat = ''{"type":"heartbeat"}''\<close>

definition event_heartbeat :: json where
  "event_heartbeat = JObj [(''type'', JStr ''heartbeat'')]"

definition frame_welcome :: string where
  \<open>frame_welcome = ''{"type":"welcome","user_name":"Ana"}''\<close>

definition event_welcome :: json where
  "event_welcome = JObj [(''type'', JStr ''welcome''), (''user_name'', JStr ''Ana'')]"

definition frame_stats :: string where
  \<open>frame_stats = ''{"type":"stats","stats":{"total_messages":7}}''\<close>

definition event_stats :: json where
  "event_stats = JObj [(''type'', JStr ''stats''), (''stats'', JObj [(''total_messages'', JNum 7)])]"

definition frame_message :: string where
  \<open>frame_message = ''{"type":"message","data":{"source":"arduino","status":"ok"}}''\<close>

definition event_message :: json where
  "event_message =
     JObj [(''type'', JStr ''message''),
           (''data'', JObj [(''source'', JStr ''arduino''), (''status'', JStr ''ok'')])]"

definition frame_override :: string where
  \<open>frame_override = ''{"type":"override","enabled":true}''\<close>

definition event_override :: json where
  "event_override = JObj [(''type'', JStr ''override''), (''enabled'', JBool True)]"

definition sample_frames :: "(string \<times> json) list" where
  "sample_frames =
     [(frame_bright, event_bright),
      (frame_dim, event_dim),
      (frame_heartbeat, event_heartbeat),
      (frame_welcome, event_welcome),
      (frame_stats, event_stats),
      (frame_message, event_message),
      (frame_override, event_override)]"

definition sample_runtime :: runtime where
  "sample_runtime =
     \<lparr>JSON_parse = (\<lambda>s. case map_of sample_frames s of
                            None \<Rightarrow> Inl (Exn ''Unexpected token'')
                          | Some j \<Rightarrow> Inr j),
      JSON_stringify = (\<lambda>n j. ''JSON''),
      Number_toString = (\<lambda>r. if r = 0 then ''0'' else ''N''),
      StringToNumber = (\<lambda>s. None),
      toFixed = (\<lambda>n r. ''0.00''),
      engine_message = (\<lambda>site. ''Cannot read properties: '' @ site)\<rparr>"

definition body_failed :: json where
  "body_failed = JObj [(''status'', JStr ''error''), (''message'', JStr ''Arduino not connected'')]"

definition body_success :: json where
  "body_success =
     JObj [(''status'', JStr ''success''), (''state'', JObj [(''light_state'', JBool True)])]"

definition sample_since :: "json \<Rightarrow> real option" where
  "sample_since v = Some 42"

definition room_dom_loaded :: room_dom where
  "room_dom_loaded =
     \<lparr>light_status = \<lparr>textContent = ''Unknown'', className = [''status-value'']\<rparr>,
      light_icon = Bulb,
      door_status = \<lparr>textContent = ''Unknown'', className = [''status-value'']\<rparr>,
      door_icon = Door,
      presence_status = \<lparr>textContent = ''Unknown'', className = [''status-value'']\<rparr>,
      presence_icon = Person,
      luminosity_value = ''Unknown'',
      luminosity_icon = Sun,
      override_status = \<lparr>textContent = ''Unknown'', className = [''status-value'']\<rparr>,
      override_icon = Locked,
      toggle_override = ''Enable Override'',
      users_list = [NoUsers],
      arduino_status = \<lparr>textContent = ''Disconnected'', className = [''stat-value'']\<rparr>,
      last_update = ''Never''\<rparr>"

definition room_page_loaded :: room_page where
  "room_page_loaded =
     \<lparr>diagnostics = [],
      connectionStatus =
        \<lparr>textContent = ''Connecting...'', className = [''connection-status'', ''disconnected'']\<rparr>,
      eventSource = None,
      opened = 0,
      closed = [],
      timers = [],
      clock = 0,
      systemState = systemState_init,
      users = JObj [],
      dom = room_dom_loaded,
      console = []\<rparr>"

definition dash_page_loaded :: dash_page where
  "dash_page_loaded =
     \<lparr>diagnostics = [],
      connectionStatus =
        \<lparr>textContent = ''Connecting...'', className = [''connection-status'', ''disconnected'']\<rparr>,
      eventSource = None,
      opened = 0,
      closed = [],
      timers = [],
      clock = 0,
      dash_console = [],
      stats = \<lparr>total_messages = ''0'', messages_today = ''0'', last_seen = ''Never''\<rparr>,
      cleanup_logs = \<lparr>button_text = ''Clean Old Logs'', disabled = False\<rparr>\<rparr>"

section \<open>Verified properties\<close>

lemmas sample_defs =
  sample_runtime_def sample_frames_def
  frame_bright_def frame_dim_def frame_heartbeat_def frame_welcome_def frame_stats_def
  frame_message_def frame_override_def
  event_bright_def event_dim_def event_heartbeat_def event_welcome_def event_stats_def
  event_message_def event_override_def

subsection \<open>Merging objects\<close>

lemma map_of_fold_assign:
  "map_of (fold (\<lambda>k t. case m k of None \<Rightarrow> t | Some v \<Rightarrow> AList.update k v t) ks t) k' =
     (if k' \<in> set ks \<and> m k' \<noteq> None then m k' else map_of t k')"
  by (induction ks arbitrary: t) (auto simp: update_conv' split: option.splits)

lemma map_of_Object_assign:
  "map_of (Object_assign R target source) =
     map_of target ++ map_of (own_props R source)"
proof
  fix k
  show "map_of (Object_assign R target source) k =
          (map_of target ++ map_of (own_props R source)) k"
    unfolding Object_assign_def map_of_fold_assign
    by (force simp: map_add_def split: option.splits dest: map_of_SomeD)
qed

subsection \<open>No handler reads the diagnostic channel\<close>

lemma no_diag_eqD: "no_diag p = no_diag q \<Longrightarrow> q = p\<lparr>diagnostics := diagnostics q\<rparr>"
  by (cases p, cases q) (simp add: no_diag_def)

lemma no_diag_upd [simp]: "no_diag (p\<lparr>diagnostics := ds\<rparr>) = no_diag p"
  by (simp add: no_diag_def)

lemma no_diag_log [simp]: "no_diag (log_diag x p) = no_diag p"
  by (simp add: no_diag_def log_diag_def)

lemma and_then_no_diag:
  assumes "map_result no_diag r' = map_result no_diag r"
    and "\<And>s ds. map_result no_diag (g (s\<lparr>diagnostics := ds\<rparr>)) = map_result no_diag (g s)"
  shows "map_result no_diag (and_then r' g) = map_result no_diag (and_then r g)"
proof (cases r)
  case (Done s)
  with assms(1) obtain s' where r': "r' = Done s'" and eq: "no_diag s' = no_diag s"
    by (cases r') auto
  from eq have "s' = s\<lparr>diagnostics := diagnostics s'\<rparr>"
    using no_diag_eqD [of s s'] by simp
  then have "map_result no_diag (g s') = map_result no_diag (g s)"
    using assms(2) by metis
  with Done r' show ?thesis by simp
next
  case (Threw e s)
  with assms(1) show ?thesis by (cases r') auto
qed

lemma addLogEntry_room_no_diag:
  "map_result no_diag (addLogEntry_room R now data (p\<lparr>diagnostics := ds\<rparr>)) =
   map_result no_diag (addLogEntry_room R now data p)"
  by (simp add: addLogEntry_room_def no_diag_def Let_def split: sum.splits)

lemma updateSystemState_no_diag:
  "map_result no_diag (updateSystemState R ns (p\<lparr>diagnostics := ds\<rparr>)) =
   map_result no_diag (updateSystemState R ns p)"
  by (simp add: updateSystemState_def no_diag_def Let_def split: sum.splits result.splits)

lemma dispatch_room_no_diag:
  "map_result no_diag (dispatch_room R now data (p\<lparr>diagnostics := ds\<rparr>)) =
   map_result no_diag (dispatch_room R now data p)"
proof (cases "get_prop R (Some data) ''type''")
  case (Inl e)
  then show ?thesis by (simp add: dispatch_room_def no_diag_def)
next
  case (Inr ty)
  consider (is_state) "ty = Some (JStr ''initial_state'') \<or> ty = Some (JStr ''update'')"
    | (is_welcome) "ty = Some (JStr ''welcome'')"
    | (is_override) "ty = Some (JStr ''override'')"
    | (is_other) "ty \<noteq> Some (JStr ''initial_state'')" "ty \<noteq> Some (JStr ''update'')"
        "ty \<noteq> Some (JStr ''welcome'')" "ty \<noteq> Some (JStr ''override'')"
    by blast
  then show ?thesis
  proof cases
    case is_state
    show ?thesis
      unfolding dispatch_room_def Inr sum.case Let_def if_P [OF is_state]
      by (rule and_then_no_diag)
         (simp_all add: updateSystemState_no_diag addLogEntry_room_no_diag split: option.splits)
  next
    case is_welcome
    then show ?thesis
      unfolding dispatch_room_def Inr sum.case Let_def
      by (simp add: addLogEntry_room_no_diag)
  next
    case is_override
    have *: "ty \<noteq> Some (JStr ''welcome'')"
      "\<not> (ty = Some (JStr ''initial_state'') \<or> ty = Some (JStr ''update''))"
      using is_override by simp_all
    show ?thesis
      unfolding dispatch_room_def Inr sum.case Let_def
        if_not_P [OF *(2)] if_not_P [OF *(1)] if_P [OF is_override]
      by (rule and_then_no_diag) (simp_all add: addLogEntry_room_no_diag no_diag_def)
  next
    case is_other
    then show ?thesis
      by (simp add: dispatch_room_def Inr)
  qed
qed

lemma onmessage_room_no_diag:
  "no_diag (onmessage_room R now raw (p\<lparr>diagnostics := ds\<rparr>)) =
   no_diag (onmessage_room R now raw p)"
proof (cases "JSON_parse R raw")
  case (Inl e)
  then show ?thesis by (simp add: onmessage_room_def)
next
  case (Inr data)
  let ?x = "console_log ''Event received:'' (Val (Some data))"
  have "map_result no_diag (dispatch_room R now data (log_diag ?x (p\<lparr>diagnostics := ds\<rparr>)))
      = map_result no_diag (dispatch_room R now data (log_diag ?x p))"
    using dispatch_room_no_diag
            [where p = p and ds = "ds @ [?x]" and R = R and now = now and data = data]
          dispatch_room_no_diag
            [where p = p and ds = "diagnostics p @ [?x]" and R = R and now = now and data = data]
    by (simp add: log_diag_def)
  then show ?thesis
    unfolding onmessage_room_def Inr sum.case
    by (cases "dispatch_room R now data (log_diag ?x (p\<lparr>diagnostics := ds\<rparr>))";
        cases "dispatch_room R now data (log_diag ?x p)")
       auto
qed

lemma addLogEntry_dash_no_diag:
  "map_result no_diag (addLogEntry_dash R data (p\<lparr>diagnostics := ds\<rparr>)) =
   map_result no_diag (addLogEntry_dash R data p)"
  by (simp add: addLogEntry_dash_def no_diag_def log_diag_def Let_def split: sum.splits)

lemma updateStats_no_diag:
  "no_diag (updateStats R since st (p\<lparr>diagnostics := ds\<rparr>)) =
   no_diag (updateStats R since st p)"
  by (simp add: updateStats_def no_diag_def log_diag_def Let_def split: option.splits)

lemma onmessage_dash_no_diag:
  "no_diag (onmessage_dash R since raw (p\<lparr>diagnostics := ds\<rparr>)) =
   no_diag (onmessage_dash R since raw p)"
proof (cases "JSON_parse R raw")
  case (Inl e)
  then show ?thesis by (simp add: onmessage_dash_def Let_def)
next
  case (Inr data)
  let ?a = "console_log ''Raw event received:'' (Val (Some (JStr raw)))"
  let ?b = "console_log ''Parsed event data:'' (Val (Some data))"
  let ?r' = "addLogEntry_dash R data (log_diag ?b (log_diag ?a (p\<lparr>diagnostics := ds\<rparr>)))"
  let ?r = "addLogEntry_dash R data (log_diag ?b (log_diag ?a p))"
  have eq: "map_result no_diag ?r' = map_result no_diag ?r"
    by (simp add: addLogEntry_dash_no_diag log_diag_def)
  have un: "onmessage_dash R since raw (p\<lparr>diagnostics := ds\<rparr>) =
      (case ?r' of
         Threw e p' \<Rightarrow> log_diag (console_error ''Raw event data:'' (Val (Some (JStr raw))))
                            (log_diag (console_error ''Error parsing event data:'' (Caught e)) p')
       | Done p' \<Rightarrow> if read_prop R data ''type'' = Some (JStr ''stats'')
                  then updateStats R since (read_prop R data ''stats'') p' else p')"
    "onmessage_dash R since raw p =
      (case ?r of
         Threw e p' \<Rightarrow> log_diag (console_error ''Raw event data:'' (Val (Some (JStr raw))))
                            (log_diag (console_error ''Error parsing event data:'' (Caught e)) p')
       | Done p' \<Rightarrow> if read_prop R data ''type'' = Some (JStr ''stats'')
                  then updateStats R since (read_prop R data ''stats'') p' else p')"
    by (simp_all add: onmessage_dash_def Inr Let_def)
  show ?thesis
  proof (cases ?r)
    case (Done s)
    with eq obtain s' where r': "?r' = Done s'" and e: "no_diag s' = no_diag s"
      by (cases ?r') auto
    from e have s': "s' = s\<lparr>diagnostics := diagnostics s'\<rparr>"
      using no_diag_eqD [of s s'] by simp
    have "no_diag (updateStats R since (read_prop R data ''stats'') s') =
          no_diag (updateStats R since (read_prop R data ''stats'') s)"
      by (subst s') (rule updateStats_no_diag)
    with Done r' e show ?thesis unfolding un by simp
  next
    case (Threw x s)
    with eq obtain s' where r': "?r' = Threw x s'" and e: "no_diag s' = no_diag s"
      by (cases ?r') auto
    with Threw show ?thesis unfolding un by simp
  qed
qed

subsection \<open>A frame that is not JSON\<close>

text \<open>
  C3.  When \<^verbatim>\<open>JSON.parse\<close> rejects a frame, the handler of either view returns
  normally, and the page it leaves differs from the page before in the diagnostic
  channel only: the room-control view adds one \<^verbatim>\<open>console.error\<close> record, the
  log/storage view its \<^verbatim>\<open>console.log\<close> of the raw frame and two
  \<^verbatim>\<open>console.error\<close> records.  The room state, the log, the rendered tiles and the
  connection status are those of before.  The next frame is processed as if the
  malformed one had never arrived: up to the diagnostic channel, the page after both
  frames is the page after the second alone.
\<close>

theorem malformed_frame_is_discarded:
  assumes "JSON_parse R raw = Inl e"
  shows "onmessage_room R now raw p =
           p\<lparr>diagnostics := diagnostics p @
                [console_error ''Error parsing event data:'' (Caught e)]\<rparr>
       \<and> no_diag (onmessage_room R now' raw' (onmessage_room R now raw p)) =
           no_diag (onmessage_room R now' raw' p)
       \<and> onmessage_dash R since raw q =
           q\<lparr>diagnostics := diagnostics q @
                [console_log ''Raw event received:'' (Val (Some (JStr raw))),
                 console_error ''Error parsing event data:'' (Caught e),
                 console_error ''Raw event data:'' (Val (Some (JStr raw)))]\<rparr>
       \<and> no_diag (onmessage_dash R since' raw' (onmessage_dash R since raw q)) =
           no_diag (onmessage_dash R since' raw' q)"
proof -
  have room: "onmessage_room R now raw p =
           p\<lparr>diagnostics := diagnostics p @
                [console_error ''Error parsing event data:'' (Caught e)]\<rparr>"
    using assms by (simp add: onmessage_room_def log_diag_def)
  have dash: "onmessage_dash R since raw q =
           q\<lparr>diagnostics := diagnostics q @
                [console_log ''Raw event received:'' (Val (Some (JStr raw))),
                 console_error ''Error parsing event data:'' (Caught e),
                 console_error ''Raw event data:'' (Val (Some (JStr raw)))]\<rparr>"
    using assms by (simp add: onmessage_dash_def log_diag_def Let_def)
  show ?thesis
    unfolding room dash by (simp add: onmessage_room_no_diag onmessage_dash_no_diag)
qed

theorem malformed_frame_is_discarded_witness:
  "JSON_parse sample_runtime ''{oops'' = Inl (Exn ''Unexpected token'')
   \<and> onmessage_room sample_runtime ''12:00:00'' ''{oops'' room_page_loaded =
       room_page_loaded\<lparr>diagnostics :=
         [console_error ''Error parsing event data:'' (Caught (Exn ''Unexpected token''))]\<rparr>
   \<and> onmessage_dash sample_runtime sample_since ''{oops'' dash_page_loaded =
       dash_page_loaded\<lparr>diagnostics :=
         [console_log ''Raw event received:'' (Val (Some (JStr ''{oops''))),
          console_error ''Error parsing event data:'' (Caught (Exn ''Unexpected token'')),
          console_error ''Raw event data:'' (Val (Some (JStr ''{oops'')))]\<rparr>"
proof -
  have h: "JSON_parse sample_runtime ''{oops'' = Inl (Exn ''Unexpected token'')"
    by (simp add: sample_defs)
  show ?thesis
    using h malformed_frame_is_discarded
      [OF h, where now = "''12:00:00''" and p = room_page_loaded and q = dash_page_loaded
         and since = sample_since and now' = "''12:00:01''" and raw' = "''{oops''"
         and since' = sample_since]
    by (simp add: room_page_loaded_def dash_page_loaded_def)
qed

subsection \<open>The luminosity glyph\<close>

text \<open>
  C6.  For every integer luminosity held in the room state,
  \<^verbatim>\<open>updateLuminosityStatus\<close> shows the bright glyph above 700, the partial glyph
  above 300 and up to 700, and the dark glyph up to 300.  At 701, 700, 301 and 300
  this gives bright, partial, partial and dark.
\<close>

theorem luminosity_icon_thresholds:
  assumes "map_of st ''luminosity'' = Some (JNum (of_int n))"
  shows "luminosity_icon (updateLuminosityStatus R st d) =
           (if n > 700 then Sun else if n > 300 then SunBehindCloud else NewMoon)"
  using assms by (simp add: updateLuminosityStatus_def js_gt_def ToNumber_def Let_def)

theorem luminosity_icon_thresholds_witness:
  "luminosity_icon (updateLuminosityStatus sample_runtime
      [(''luminosity'', JNum 701)] room_dom_loaded) = Sun
   \<and> luminosity_icon (updateLuminosityStatus sample_runtime
      [(''luminosity'', JNum 700)] room_dom_loaded) = SunBehindCloud
   \<and> luminosity_icon (updateLuminosityStatus sample_runtime
      [(''luminosity'', JNum 301)] room_dom_loaded) = SunBehindCloud
   \<and> luminosity_icon (updateLuminosityStatus sample_runtime
      [(''luminosity'', JNum 300)] room_dom_loaded) = NewMoon"
  using luminosity_icon_thresholds
          [of "[(''luminosity'', JNum 701)]" 701 sample_runtime room_dom_loaded]
        luminosity_icon_thresholds
          [of "[(''luminosity'', JNum 700)]" 700 sample_runtime room_dom_loaded]
        luminosity_icon_thresholds
          [of "[(''luminosity'', JNum 301)]" 301 sample_runtime room_dom_loaded]
        luminosity_icon_thresholds
          [of "[(''luminosity'', JNum 300)]" 300 sample_runtime room_dom_loaded]
  by simp

subsection \<open>The override toggle\<close>

text \<open>
  C10.  Whatever value \<^verbatim>\<open>systemState.manual_override\<close> holds at the click,
  \<^verbatim>\<open>toggleOverride\<close> posts \<^verbatim>\<open>{enable: b}\<close> to the override endpoint with
  \<open>b\<close> the negation of that value's truth, and the click leaves the page as it
  was: the state changes only when the response is handled.
\<close>

theorem toggleOverride_requests_negation:
  "toggleOverride_click p =
     (p, \<lparr>url = ''/api/override'',
          body = JObj [(''enable'',
                        JBool (\<not> truthy (map_of (systemState p) ''manual_override'')))]\<rparr>)"
  by (simp add: toggleOverride_click_def toggleOverride_newState_def)

subsection \<open>A dropped stream\<close>

lemma onerror_room_effect:
  "shows_disconnected (onerror_room p)"
  "timers (onerror_room p) = timers p @ [(clock p + 5000, Reconnect)]"
  "opened (onerror_room p) = opened p"
  "eventSource (onerror_room p) = eventSource p"
  "clock (onerror_room p) = clock p"
  by (simp_all add: onerror_room_def shows_disconnected_def setTimeout_def log_diag_def
        classList_add_def classList_remove_def Let_def)

lemma onerror_dash_effect:
  "shows_disconnected (onerror_dash p)"
  "timers (onerror_dash p) = timers p @ [(clock p + 5000, Reconnect)]"
  "opened (onerror_dash p) = opened p"
  "eventSource (onerror_dash p) = eventSource p"
  "clock (onerror_dash p) = clock p"
  by (simp_all add: onerror_dash_def shows_disconnected_def setTimeout_def log_diag_def
        classList_add_def classList_remove_def Let_def)

lemma connectToEventSource_effect:
  "opened (connectToEventSource p) = Suc (opened p)"
  "eventSource (connectToEventSource p) = Some (opened p)"
  "timers (connectToEventSource p) = timers p"
  "clock (connectToEventSource p) = clock p"
  by (simp_all add: connectToEventSource_def Let_def split: option.splits)

lemma fold_run_task:
  "opened (fold run_task ts p) = opened p + length ts"
  "timers (fold run_task ts p) = timers p"
  "clock (fold run_task ts p) = clock p"
  "eventSource (fold run_task ts p) =
     (if ts = [] then eventSource p else Some (opened p + length ts - 1))"
  by (induction ts arbitrary: p)
     (simp_all add: run_task_def connectToEventSource_effect split: task.splits)

lemma elapse_effect:
  "opened (elapse dt p) = opened p + length (filter (\<lambda>x. fst x \<le> clock p + dt) (timers p))"
  "timers (elapse dt p) = filter (\<lambda>x. \<not> fst x \<le> clock p + dt) (timers p)"
  "clock (elapse dt p) = clock p + dt"
  "eventSource (elapse dt p) =
     (if filter (\<lambda>x. fst x \<le> clock p + dt) (timers p) = [] then eventSource p
      else Some (opened p + length (filter (\<lambda>x. fst x \<le> clock p + dt) (timers p)) - 1))"
  by (simp_all add: elapse_def Let_def fold_run_task)

lemma length_filter_due:
  fixes a b :: nat
  assumes "a \<le> b"
  shows "length (filter (\<lambda>x. fst x \<le> a) xs) +
         length (filter (\<lambda>x. fst x \<le> b) (filter (\<lambda>x. \<not> fst x \<le> a) xs)) =
         length (filter (\<lambda>x. fst x \<le> b) xs)"
  using assms by (induction xs) auto

lemma filter_later:
  fixes a b :: nat
  assumes "a \<le> b"
  shows "filter (\<lambda>x. \<not> fst x \<le> b) (filter (\<lambda>x. \<not> fst x \<le> a) xs) =
         filter (\<lambda>x. \<not> fst x \<le> b) xs"
  using assms by (induction xs) auto

lemma elapse_after_room:
  "opened (elapse dt (onerror_room p)) = opened (elapse dt p) + (if 5000 \<le> dt then 1 else 0)"
  "timers (elapse dt (onerror_room p)) =
     timers (elapse dt p) @ (if dt < 5000 then [(clock p + 5000, Reconnect)] else [])"
  "eventSource (elapse dt (onerror_room p)) =
     (if 5000 \<le> dt then Some (opened (elapse dt p)) else eventSource (elapse dt p))"
  "clock (elapse dt (onerror_room p)) = clock (elapse dt p)"
  by (simp_all add: elapse_effect onerror_room_effect)

lemma elapse_after_dash:
  "opened (elapse dt (onerror_dash p)) = opened (elapse dt p) + (if 5000 \<le> dt then 1 else 0)"
  "timers (elapse dt (onerror_dash p)) =
     timers (elapse dt p) @ (if dt < 5000 then [(clock p + 5000, Reconnect)] else [])"
  "eventSource (elapse dt (onerror_dash p)) =
     (if 5000 \<le> dt then Some (opened (elapse dt p)) else eventSource (elapse dt p))"
  "clock (elapse dt (onerror_dash p)) = clock (elapse dt p)"
  by (simp_all add: elapse_effect onerror_dash_effect)

lemma elapse_elapse:
  "opened (elapse b (elapse a p)) = opened (elapse (a + b) p)"
  "timers (elapse b (elapse a p)) = timers (elapse (a + b) p)"
  "clock (elapse b (elapse a p)) = clock (elapse (a + b) p)"
  using length_filter_due [of "clock p + a" "clock p + a + b" "timers p"]
    filter_later [of "clock p + a" "clock p + a + b" "timers p"]
  by (simp_all add: elapse_effect add.assoc)

lemma elapse_cong:
  assumes "opened q = opened q' + k" "timers q = timers q'" "clock q = clock q'"
  shows "opened (elapse d q) = opened (elapse d q') + k"
    "timers (elapse d q) = timers (elapse d q')"
    "clock (elapse d q) = clock (elapse d q')"
  using assms by (simp_all add: elapse_effect)

lemma elapse_drop_and_wait_room:
  "opened (elapse d (drop_and_wait_room p)) = opened (elapse (5000 + d) p) + 1"
  "timers (elapse d (drop_and_wait_room p)) = timers (elapse (5000 + d) p)"
  "clock (elapse d (drop_and_wait_room p)) = clock (elapse (5000 + d) p)"
proof -
  have a: "opened (elapse 5000 (onerror_room p)) = opened (elapse 5000 p) + 1"
    "timers (elapse 5000 (onerror_room p)) = timers (elapse 5000 p)"
    "clock (elapse 5000 (onerror_room p)) = clock (elapse 5000 p)"
    by (simp_all add: elapse_after_room)
  show "opened (elapse d (drop_and_wait_room p)) = opened (elapse (5000 + d) p) + 1"
    "timers (elapse d (drop_and_wait_room p)) = timers (elapse (5000 + d) p)"
    "clock (elapse d (drop_and_wait_room p)) = clock (elapse (5000 + d) p)"
    unfolding drop_and_wait_room_def
    using elapse_cong [OF a, of d] by (simp_all add: elapse_elapse)
qed

lemma elapse_drop_and_wait_dash:
  "opened (elapse d (drop_and_wait_dash p)) = opened (elapse (5000 + d) p) + 1"
  "timers (elapse d (drop_and_wait_dash p)) = timers (elapse (5000 + d) p)"
  "clock (elapse d (drop_and_wait_dash p)) = clock (elapse (5000 + d) p)"
proof -
  have a: "opened (elapse 5000 (onerror_dash p)) = opened (elapse 5000 p) + 1"
    "timers (elapse 5000 (onerror_dash p)) = timers (elapse 5000 p)"
    "clock (elapse 5000 (onerror_dash p)) = clock (elapse 5000 p)"
    by (simp_all add: elapse_after_dash)
  show "opened (elapse d (drop_and_wait_dash p)) = opened (elapse (5000 + d) p) + 1"
    "timers (elapse d (drop_and_wait_dash p)) = timers (elapse (5000 + d) p)"
    "clock (elapse d (drop_and_wait_dash p)) = clock (elapse (5000 + d) p)"
    unfolding drop_and_wait_dash_def
    using elapse_cong [OF a, of d] by (simp_all add: elapse_elapse)
qed

lemma drop_and_wait_room_funpow:
  "opened (elapse d ((drop_and_wait_room ^^ n) p)) = opened (elapse (5000 * n + d) p) + n \<and>
   timers (elapse d ((drop_and_wait_room ^^ n) p)) = timers (elapse (5000 * n + d) p)"
proof (induction n arbitrary: d)
  case 0
  show ?case by simp
next
  case (Suc n)
  have "opened (elapse d (drop_and_wait_room ((drop_and_wait_room ^^ n) p))) =
          opened (elapse (5000 + d) ((drop_and_wait_room ^^ n) p)) + 1"
    and "timers (elapse d (drop_and_wait_room ((drop_and_wait_room ^^ n) p))) =
          timers (elapse (5000 + d) ((drop_and_wait_room ^^ n) p))"
    by (rule elapse_drop_and_wait_room)+
  with Suc [of "5000 + d"] show ?case by (simp add: algebra_simps)
qed

lemma drop_and_wait_dash_funpow:
  "opened (elapse d ((drop_and_wait_dash ^^ n) p)) = opened (elapse (5000 * n + d) p) + n \<and>
   timers (elapse d ((drop_and_wait_dash ^^ n) p)) = timers (elapse (5000 * n + d) p)"
proof (induction n arbitrary: d)
  case 0
  show ?case by simp
next
  case (Suc n)
  have "opened (elapse d (drop_and_wait_dash ((drop_and_wait_dash ^^ n) p))) =
          opened (elapse (5000 + d) ((drop_and_wait_dash ^^ n) p)) + 1"
    and "timers (elapse d (drop_and_wait_dash ((drop_and_wait_dash ^^ n) p))) =
          timers (elapse (5000 + d) ((drop_and_wait_dash ^^ n) p))"
    by (rule elapse_drop_and_wait_dash)+
  with Suc [of "5000 + d"] show ?case by (simp add: algebra_simps)
qed

text \<open>
  C5.  In both views, \<^verbatim>\<open>onerror\<close> at once shows the connection as disconnected
  and adds exactly one timeout, due 5000 ms after the error, whose callback is
  \<^verbatim>\<open>connectToEventSource\<close>; it opens no stream itself.  Whatever timeouts are
  pending when the error arrives, the error adds no stream to those a quiet interval
  shorter than 5000 ms would have opened without it, and its timeout is still pending
  then; it adds exactly one to those an interval of 5000 ms or more would have opened,
  that stream is the current one at the end of the interval, and its timeout is gone.
  So two errors less than five seconds apart bring one reconnect each, five seconds
  after each.  The delay is the same constant at every error and nothing counts the
  retries: \<open>n\<close> rounds of a drop followed by five quiet seconds open exactly
  \<open>n\<close> streams more than the same time spent quietly, for every \<open>n\<close>, and
  leave no timeout of their own pending.
\<close>

theorem stream_drop_schedules_one_reconnect:
  "shows_disconnected (onerror_room p)
   \<and> timers (onerror_room p) = timers p @ [(clock p + 5000, Reconnect)]
   \<and> opened (onerror_room p) = opened p
   \<and> opened (elapse dt (onerror_room p)) = opened (elapse dt p) + (if 5000 \<le> dt then 1 else 0)
   \<and> timers (elapse dt (onerror_room p)) =
       timers (elapse dt p) @ (if dt < 5000 then [(clock p + 5000, Reconnect)] else [])
   \<and> eventSource (elapse dt (onerror_room p)) =
       (if 5000 \<le> dt then Some (opened (elapse dt p)) else eventSource (elapse dt p))
   \<and> opened (elapse dt ((drop_and_wait_room ^^ n) p)) = opened (elapse (5000 * n + dt) p) + n
   \<and> timers (elapse dt ((drop_and_wait_room ^^ n) p)) = timers (elapse (5000 * n + dt) p)
   \<and> shows_disconnected (onerror_dash q)
   \<and> timers (onerror_dash q) = timers q @ [(clock q + 5000, Reconnect)]
   \<and> opened (onerror_dash q) = opened q
   \<and> opened (elapse dt (onerror_dash q)) = opened (elapse dt q) + (if 5000 \<le> dt then 1 else 0)
   \<and> timers (elapse dt (onerror_dash q)) =
       timers (elapse dt q) @ (if dt < 5000 then [(clock q + 5000, Reconnect)] else [])
   \<and> eventSource (elapse dt (onerror_dash q)) =
       (if 5000 \<le> dt then Some (opened (elapse dt q)) else eventSource (elapse dt q))
   \<and> opened (elapse dt ((drop_and_wait_dash ^^ n) q)) = opened (elapse (5000 * n + dt) q) + n
   \<and> timers (elapse dt ((drop_and_wait_dash ^^ n) q)) = timers (elapse (5000 * n + dt) q)"
  using drop_and_wait_room_funpow [of dt n p] drop_and_wait_dash_funpow [of dt n q]
  by (simp only: onerror_room_effect onerror_dash_effect elapse_after_room elapse_after_dash
        simp_thms)


theorem stream_drop_schedules_one_reconnect_witness:
  "shows_disconnected (onerror_room room_page_loaded)
   \<and> timers (onerror_room room_page_loaded) = [(5000, Reconnect)]
   \<and> opened (elapse 4999 (onerror_room room_page_loaded)) = 0
   \<and> opened (elapse 5000 (onerror_room room_page_loaded)) = 1
   \<and> eventSource (elapse 5000 (onerror_room room_page_loaded)) = Some 0
   \<and> timers (elapse 5000 (onerror_room room_page_loaded)) = []
   \<and> timers (onerror_room (elapse 3000 (onerror_room room_page_loaded))) =
       [(5000, Reconnect), (8000, Reconnect)]
   \<and> opened (elapse 1999 (onerror_room (elapse 3000 (onerror_room room_page_loaded)))) = 0
   \<and> opened (elapse 2000 (onerror_room (elapse 3000 (onerror_room room_page_loaded)))) = 1
   \<and> opened (elapse 4999 (onerror_room (elapse 3000 (onerror_room room_page_loaded)))) = 1
   \<and> opened (elapse 5000 (onerror_room (elapse 3000 (onerror_room room_page_loaded)))) = 2
   \<and> opened (elapse 0 ((drop_and_wait_room ^^ 3) room_page_loaded)) = 3
   \<and> timers (elapse 0 ((drop_and_wait_room ^^ 3) room_page_loaded)) = []
   \<and> shows_disconnected (onerror_dash dash_page_loaded)
   \<and> timers (onerror_dash dash_page_loaded) = [(5000, Reconnect)]
   \<and> opened (elapse 4999 (onerror_dash dash_page_loaded)) = 0
   \<and> opened (elapse 5000 (onerror_dash dash_page_loaded)) = 1
   \<and> eventSource (elapse 5000 (onerror_dash dash_page_loaded)) = Some 0
   \<and> timers (elapse 5000 (onerror_dash dash_page_loaded)) = []
   \<and> timers (onerror_dash (elapse 3000 (onerror_dash dash_page_loaded))) =
       [(5000, Reconnect), (8000, Reconnect)]
   \<and> opened (elapse 1999 (onerror_dash (elapse 3000 (onerror_dash dash_page_loaded)))) = 0
   \<and> opened (elapse 2000 (onerror_dash (elapse 3000 (onerror_dash dash_page_loaded)))) = 1
   \<and> opened (elapse 4999 (onerror_dash (elapse 3000 (onerror_dash dash_page_loaded)))) = 1
   \<and> opened (elapse 5000 (onerror_dash (elapse 3000 (onerror_dash dash_page_loaded)))) = 2
   \<and> opened (elapse 0 ((drop_and_wait_dash ^^ 3) dash_page_loaded)) = 3
   \<and> timers (elapse 0 ((drop_and_wait_dash ^^ 3) dash_page_loaded)) = []"
proof -
  have h: "timers room_page_loaded = []" "timers dash_page_loaded = []"
    "clock room_page_loaded = 0" "clock dash_page_loaded = 0"
    "opened room_page_loaded = 0" "opened dash_page_loaded = 0"
    "eventSource room_page_loaded = None" "eventSource dash_page_loaded = None"
    by (simp_all add: room_page_loaded_def dash_page_loaded_def)
  let ?p = "elapse 3000 (onerror_room room_page_loaded)"
  let ?q = "elapse 3000 (onerror_dash dash_page_loaded)"
  show ?thesis
    using
      stream_drop_schedules_one_reconnect
        [where p = room_page_loaded and q = dash_page_loaded and dt = 4999 and n = 3]
      stream_drop_schedules_one_reconnect
        [where p = room_page_loaded and q = dash_page_loaded and dt = 5000 and n = 3]
      stream_drop_schedules_one_reconnect
        [where p = room_page_loaded and q = dash_page_loaded and dt = 0 and n = 3]
      stream_drop_schedules_one_reconnect [where p = ?p and q = ?q and dt = 1999 and n = 0]
      stream_drop_schedules_one_reconnect [where p = ?p and q = ?q and dt = 2000 and n = 0]
      stream_drop_schedules_one_reconnect [where p = ?p and q = ?q and dt = 4999 and n = 0]
      stream_drop_schedules_one_reconnect [where p = ?p and q = ?q and dt = 5000 and n = 0]
    by (simp add: h elapse_effect onerror_room_effect onerror_dash_effect)
qed

subsection \<open>Merging state events: last write wins\<close>

lemma systemState_addLogEntry_room [simp]:
  "systemState (state_of (addLogEntry_room R now data p)) = systemState p"
  by (simp add: addLogEntry_room_def Let_def split: sum.splits)

lemma systemState_updateSystemState [simp]:
  "systemState (state_of (updateSystemState R ns p)) = Object_assign R (systemState p) ns"
  by (simp add: updateSystemState_def Let_def split: sum.splits result.splits)

lemma state_of_and_then:
  "state_of (and_then r f) = (case r of Done s \<Rightarrow> state_of (f s) | Threw e s \<Rightarrow> s)"
  by (cases r) simp_all

lemma systemState_log_diag [simp]: "systemState (log_diag x p) = systemState p"
  by (simp add: log_diag_def)

lemma systemState_dispatch_state_event:
  assumes "is_state_event R data"
  shows "map_of (systemState (state_of (dispatch_room R now data p))) =
         map_of (systemState p) ++ map_of (payload_fields R data)"
proof -
  from assms have nn: "data \<noteq> JNull"
    by (auto simp: is_state_event_def read_prop_def)
  then have ty: "get_prop R (Some data) ''type'' = Inr (read_prop R data ''type'')"
    by (cases data) (simp_all add: get_prop_def)
  have c: "read_prop R data ''type'' = Some (JStr ''initial_state'') \<or>
           read_prop R data ''type'' = Some (JStr ''update'')"
    using assms by (auto simp: is_state_event_def)
  let ?merge = "case read_prop R data ''system_state'' of
                  None \<Rightarrow> Done p
                | Some ss \<Rightarrow> if truthy (Some ss) then updateSystemState R ss p else Done p"
  have m: "map_of (systemState (state_of ?merge)) =
           map_of (systemState p) ++ map_of (payload_fields R data)"
    by (simp add: payload_fields_def map_of_Object_assign split: option.splits)
  have "systemState (state_of (dispatch_room R now data p)) = systemState (state_of ?merge)"
    unfolding dispatch_room_def ty sum.case Let_def if_P [OF c]
    by (cases ?merge) (simp_all add: state_of_and_then)
  with m show ?thesis by simp
qed

lemma systemState_onmessage_state_event:
  assumes "JSON_parse R raw = Inr data" "is_state_event R data"
  shows "map_of (systemState (onmessage_room R now raw p)) =
         map_of (systemState p) ++ map_of (payload_fields R data)"
proof -
  let ?p = "log_diag (console_log ''Event received:'' (Val (Some data))) p"
  have "systemState (onmessage_room R now raw p) =
        systemState (state_of (dispatch_room R now data ?p))"
    unfolding onmessage_room_def assms(1) sum.case
    by (cases "dispatch_room R now data ?p") simp_all
  then show ?thesis
    using systemState_dispatch_state_event [OF assms(2), of now ?p] by simp
qed

lemma last_write_None: "last_write k ws = None \<longleftrightarrow> (\<forall>w\<in>set ws. map_of w k = None)"
  by (induction ws) (auto split: option.splits)

lemma last_write_snoc:
  "last_write k (ws @ [w]) = (case map_of w k of Some v \<Rightarrow> Some v | None \<Rightarrow> last_write k ws)"
  by (induction ws) (auto split: option.splits)

text \<open>
  C1.  Let the frames of a sequence decode to events of type \<^verbatim>\<open>update\<close> or
  \<^verbatim>\<open>initial_state\<close>, and let them be handled in arrival order from the default
  room state.  Then every field reads, in the state reached, the value carried by
  the last event whose \<^verbatim>\<open>system_state\<close> payload has that field, and a field no
  payload has reads its default (absent when the default state has no such field).
\<close>

theorem last_write_wins:
  assumes "list_all2 (\<lambda>f data. JSON_parse R (snd f) = Inr data \<and> is_state_event R data) frames events"
    and "systemState p = systemState_init"
  shows "map_of (systemState (receive_room R frames p)) k =
           (case last_write k (map (payload_fields R) events) of
              Some v \<Rightarrow> Some v
            | None \<Rightarrow> map_of systemState_init k)"
proof -
  have "map_of (systemState (receive_room R frames p)) k =
           (case last_write k (map (payload_fields R) events) of
              Some v \<Rightarrow> Some v
            | None \<Rightarrow> map_of (systemState p) k)"
    using assms(1)
  proof (induction frames events arbitrary: p rule: list_all2_induct)
    case Nil
    then show ?case by (simp add: receive_room_def)
  next
    case (Cons f fs data ds)
    from Cons.hyps(1) have
      step: "map_of (systemState (onmessage_room R (fst f) (snd f) p)) =
             map_of (systemState p) ++ map_of (payload_fields R data)"
      by (simp add: systemState_onmessage_state_event)
    have "receive_room R (f # fs) p = receive_room R fs (onmessage_room R (fst f) (snd f) p)"
      by (simp add: receive_room_def)
    then show ?case
      using Cons.IH [of "onmessage_room R (fst f) (snd f) p"] step
      by (simp add: map_add_def split: option.splits)
  qed
  then show ?thesis unfolding assms(2) .
qed

theorem last_write_wins_witness:
  "list_all2 (\<lambda>f data. JSON_parse sample_runtime (snd f) = Inr data \<and>
                         is_state_event sample_runtime data)
     [(''12:00:00'', frame_bright), (''12:00:05'', frame_dim)] [event_bright, event_dim]
   \<and> systemState room_page_loaded = systemState_init
   \<and> map_of (systemState (receive_room sample_runtime
        [(''12:00:00'', frame_bright), (''12:00:05'', frame_dim)] room_page_loaded))
        ''luminosity'' = Some (JNum 120)
   \<and> map_of (systemState (receive_room sample_runtime
        [(''12:00:00'', frame_bright), (''12:00:05'', frame_dim)] room_page_loaded))
        ''light_state'' = Some (JBool True)
   \<and> map_of (systemState (receive_room sample_runtime
        [(''12:00:00'', frame_bright), (''12:00:05'', frame_dim)] room_page_loaded))
        ''door_state'' = Some (JBool False)"
proof -
  let ?frames = "[(''12:00:00'', frame_bright), (''12:00:05'', frame_dim)]"
  let ?events = "[event_bright, event_dim]"
  have h1: "list_all2 (\<lambda>f data. JSON_parse sample_runtime (snd f) = Inr data \<and>
                                 is_state_event sample_runtime data) ?frames ?events"
    by (simp add: sample_defs is_state_event_def read_prop_def)
  have h2: "systemState room_page_loaded = systemState_init"
    by (simp add: room_page_loaded_def)
  have ev: "map (payload_fields sample_runtime) ?events =
              [[(''light_state'', JBool True), (''luminosity'', JNum 812)],
               [(''luminosity'', JNum 120)]]"
    by (simp add: sample_defs payload_fields_def read_prop_def)
  show ?thesis
    using h1 h2
      last_write_wins [OF h1 h2, of "''luminosity''"]
      last_write_wins [OF h1 h2, of "''light_state''"]
      last_write_wins [OF h1 h2, of "''door_state''"]
    unfolding ev
    by (simp add: systemState_init_def)
qed

subsection \<open>The bounded log and the entries of the room-control view\<close>

lemma removeOldest_drop: "removeOldest cap xs = drop (length xs - cap) xs"
proof (induction cap xs rule: removeOldest.induct)
  case (1 cap xs)
  show ?case
  proof (cases "length xs > cap")
    case True
    then obtain y ys where xs: "xs = y # ys" by (cases xs) auto
    with True have "length xs - cap = Suc (length ys - cap)" by simp
    with "1" True xs show ?thesis by (simp add: removeOldest.simps [of cap "y # ys"])
  next
    case False
    then show ?thesis by (simp add: removeOldest.simps [of cap xs])
  qed
qed

lemma length_removeOldest: "length (removeOldest cap xs) = min cap (length xs)"
  by (simp add: removeOldest_drop)

lemma removeOldest_fits: "length xs \<le> cap \<Longrightarrow> removeOldest cap xs = xs"
  by (simp add: removeOldest_drop)

lemma toUpperCase_Nil [simp]: "toUpperCase s = [] \<longleftrightarrow> s = []"
  by (simp add: toUpperCase_def)

lemma addLogEntry_room_plain:
  assumes "tag \<noteq> []"
  shows "addLogEntry_room R now
           (Some (JObj [(''type'', JStr tag), (''message'', JStr msg)])) p =
         Done (p\<lparr>console := removeOldest 100 (console p @ [plain_entry now tag msg])\<rparr>)"
  using assms
  by (simp add: addLogEntry_room_def get_prop_def read_prop_def type_label_def js_or_def
        dom_text_def ToString_def plain_entry_def Let_def)

lemma get_prop_Some: "data \<noteq> JNull \<Longrightarrow> get_prop R (Some data) k = Inr (read_prop R data k)"
  by (cases data) (simp_all add: get_prop_def)

lemma get_prop_null: "get_prop R (Some JNull) k = Inl (TypeError R k)"
  by (simp add: get_prop_def)

subsection \<open>Responses to the two control requests\<close>

lemma controlLight_rejected:
  "controlLight_settle R now command (Rejected e) p =
     p\<lparr>diagnostics := diagnostics p @ [console_error ''Error controlling light:'' (Caught e)],
       console := removeOldest 100 (console p @
         [plain_entry now ''error'' (''Error controlling light: '' @ message e)])\<rparr>"
  by (simp add: controlLight_settle_def controlLight_catch_def addLogEntry_room_plain log_diag_def)

lemma controlLight_failed:
  assumes "data \<noteq> JNull" "read_prop R data ''status'' \<noteq> Some (JStr ''success'')"
  shows "controlLight_settle R now command (Body data) p =
     p\<lparr>console := removeOldest 100 (console p @
         [plain_entry now ''error''
            (''Failed to turn '' @ command @ '' light: '' @ ToString R (read_prop R data ''message''))])\<rparr>"
  using assms
  by (simp add: controlLight_settle_def controlLight_then_def get_prop_Some addLogEntry_room_plain)

lemma controlLight_null:
  "controlLight_settle R now command (Body JNull) p =
     p\<lparr>diagnostics := diagnostics p @
          [console_error ''Error controlling light:'' (Caught (TypeError R ''status''))],
       console := removeOldest 100 (console p @
         [plain_entry now ''error'' (''Error controlling light: '' @ engine_message R ''status'')])\<rparr>"
  by (simp add: controlLight_settle_def controlLight_then_def get_prop_null controlLight_catch_def
        addLogEntry_room_plain log_diag_def TypeError_def)

lemma console_updateSystemState [simp]:
  "console (state_of (updateSystemState R ns p)) = console p"
  by (simp add: updateSystemState_def Let_def split: sum.splits result.splits)

lemma console_log_diag [simp]: "console (log_diag x p) = console p"
  by (simp add: log_diag_def)

lemma controlLight_success:
  assumes "read_prop R data ''status'' = Some (JStr ''success'')"
  shows "systemState (controlLight_settle R now command (Body data) p) =
           (case read_prop R data ''state'' of
              None \<Rightarrow> systemState p
            | Some st \<Rightarrow> if truthy (Some st) then Object_assign R (systemState p) st
                         else systemState p)"
    and "\<exists>extra. console (controlLight_settle R now command (Body data) p) =
           removeOldest 100 (removeOldest 100 (console p @
             [plain_entry now ''control'' (''Light turned '' @ command @ '' successfully'')]) @ extra)
         \<and> (extra = [] \<or> (\<exists>m. extra = [plain_entry now ''error'' (''Error controlling light: '' @ m)]))"
proof -
  from assms have nn: "data \<noteq> JNull" by (auto simp: read_prop_def)
  let ?p1 = "p\<lparr>console := removeOldest 100 (console p @
             [plain_entry now ''control'' (''Light turned '' @ command @ '' successfully'')])\<rparr>"
  let ?merge = "case read_prop R data ''state'' of
                  None \<Rightarrow> Done ?p1
                | Some st \<Rightarrow> if truthy (Some st) then updateSystemState R st ?p1 else Done ?p1"
  have th: "controlLight_then R now command data p = ?merge"
    using assms nn
    by (simp add: controlLight_then_def get_prop_Some addLogEntry_room_plain split: option.splits)
  have fits: "removeOldest 100 (console ?p1) = console ?p1"
    by (rule removeOldest_fits) (simp add: length_removeOldest)
  have st: "systemState (state_of ?merge) =
           (case read_prop R data ''state'' of
              None \<Rightarrow> systemState p
            | Some st \<Rightarrow> if truthy (Some st) then Object_assign R (systemState p) st
                         else systemState p)"
    and co: "console (state_of ?merge) = console ?p1"
    by (simp_all split: option.splits)
  show "systemState (controlLight_settle R now command (Body data) p) =
           (case read_prop R data ''state'' of
              None \<Rightarrow> systemState p
            | Some st \<Rightarrow> if truthy (Some st) then Object_assign R (systemState p) st
                         else systemState p)"
    unfolding controlLight_settle_def outcome.case th
    using st by (cases ?merge) (simp_all add: controlLight_catch_def)
  show "\<exists>extra. console (controlLight_settle R now command (Body data) p) =
           removeOldest 100 (removeOldest 100 (console p @
             [plain_entry now ''control'' (''Light turned '' @ command @ '' successfully'')]) @ extra)
         \<and> (extra = [] \<or> (\<exists>m. extra = [plain_entry now ''error'' (''Error controlling light: '' @ m)]))"
  proof (cases ?merge)
    case (Done q)
    with co fits show ?thesis
      unfolding controlLight_settle_def outcome.case th
      by (intro exI [of _ "[]"]) simp
  next
    case (Threw e q)
    have "console (controlLight_settle R now command (Body data) p) =
            removeOldest 100 (console ?p1 @
              [plain_entry now ''error'' (''Error controlling light: '' @ message e)])"
      unfolding controlLight_settle_def outcome.case th
      using Threw co by (simp add: controlLight_catch_def addLogEntry_room_plain)
    then show ?thesis by auto
  qed
qed

lemma toggleOverride_rejected:
  "toggleOverride_settle R now newState (Rejected e) p =
     p\<lparr>diagnostics := diagnostics p @ [console_error ''Error toggling override:'' (Caught e)],
       console := removeOldest 100 (console p @
         [plain_entry now ''error'' (''Error toggling override: '' @ message e)])\<rparr>"
  by (simp add: toggleOverride_settle_def toggleOverride_catch_def addLogEntry_room_plain
        log_diag_def)

lemma toggleOverride_failed:
  assumes "data \<noteq> JNull" "read_prop R data ''status'' \<noteq> Some (JStr ''success'')"
  shows "toggleOverride_settle R now newState (Body data) p =
     p\<lparr>console := removeOldest 100 (console p @
         [plain_entry now ''error''
            (''Failed to toggle override: '' @ ToString R (read_prop R data ''message''))])\<rparr>"
  using assms
  by (simp add: toggleOverride_settle_def toggleOverride_then_def get_prop_Some
        addLogEntry_room_plain)

lemma toggleOverride_null:
  "toggleOverride_settle R now newState (Body JNull) p =
     p\<lparr>diagnostics := diagnostics p @
          [console_error ''Error toggling override:'' (Caught (TypeError R ''status''))],
       console := removeOldest 100 (console p @
         [plain_entry now ''error''
            (''Error toggling override: '' @ engine_message R ''status'')])\<rparr>"
  by (simp add: toggleOverride_settle_def toggleOverride_then_def get_prop_null
        toggleOverride_catch_def addLogEntry_room_plain log_diag_def TypeError_def)

lemma toggleOverride_success:
  assumes "read_prop R data ''status'' = Some (JStr ''success'')"
  shows "systemState (toggleOverride_settle R now newState (Body data) p) =
           (case read_prop R data ''state'' of
              None \<Rightarrow> systemState p
            | Some st \<Rightarrow> if truthy (Some st) then Object_assign R (systemState p) st
                         else systemState p)"
    and "\<exists>extra. console (toggleOverride_settle R now newState (Body data) p) =
           removeOldest 100 (removeOldest 100 (console p @
             [plain_entry now ''control''
                (''Manual override '' @ (if newState then ''enabled'' else ''disabled''))]) @ extra)
         \<and> (extra = [] \<or>
              (\<exists>m. extra = [plain_entry now ''error'' (''Error toggling override: '' @ m)]))"
proof -
  from assms have nn: "data \<noteq> JNull" by (auto simp: read_prop_def)
  let ?p1 = "p\<lparr>console := removeOldest 100 (console p @
             [plain_entry now ''control''
                (''Manual override '' @ (if newState then ''enabled'' else ''disabled''))])\<rparr>"
  let ?merge = "case read_prop R data ''state'' of
                  None \<Rightarrow> Done ?p1
                | Some st \<Rightarrow> if truthy (Some st) then updateSystemState R st ?p1 else Done ?p1"
  have th: "toggleOverride_then R now newState data p = ?merge"
    using assms nn
    by (simp add: toggleOverride_then_def get_prop_Some addLogEntry_room_plain
          split: option.splits)
  have fits: "removeOldest 100 (console ?p1) = console ?p1"
    by (rule removeOldest_fits) (simp add: length_removeOldest)
  have st: "systemState (state_of ?merge) =
           (case read_prop R data ''state'' of
              None \<Rightarrow> systemState p
            | Some st \<Rightarrow> if truthy (Some st) then Object_assign R (systemState p) st
                         else systemState p)"
    and co: "console (state_of ?merge) = console ?p1"
    by (simp_all split: option.splits)
  show "systemState (toggleOverride_settle R now newState (Body data) p) =
           (case read_prop R data ''state'' of
              None \<Rightarrow> systemState p
            | Some st \<Rightarrow> if truthy (Some st) then Object_assign R (systemState p) st
                         else systemState p)"
    unfolding toggleOverride_settle_def outcome.case th
    using st by (cases ?merge) (simp_all add: toggleOverride_catch_def)
  show "\<exists>extra. console (toggleOverride_settle R now newState (Body data) p) =
           removeOldest 100 (removeOldest 100 (console p @
             [plain_entry now ''control''
                (''Manual override '' @ (if newState then ''enabled'' else ''disabled''))]) @ extra)
         \<and> (extra = [] \<or>
              (\<exists>m. extra = [plain_entry now ''error'' (''Error toggling override: '' @ m)]))"
  proof (cases ?merge)
    case (Done q)
    with co fits show ?thesis
      unfolding toggleOverride_settle_def outcome.case th
      by (intro exI [of _ "[]"]) simp
  next
    case (Threw e q)
    have "console (toggleOverride_settle R now newState (Body data) p) =
            removeOldest 100 (console ?p1 @
              [plain_entry now ''error'' (''Error toggling override: '' @ message e)])"
      unfolding toggleOverride_settle_def outcome.case th
      using Threw co by (simp add: toggleOverride_catch_def addLogEntry_room_plain)
    then show ?thesis by auto
  qed
qed

text \<open>
  C4.  For \<^verbatim>\<open>controlLight\<close> and for \<^verbatim>\<open>toggleOverride\<close> alike: when the
  request is rejected (the transport failed or the body was not JSON), the page
  changes by one diagnostic record and one \<^verbatim>\<open>error\<close> entry appended to the log,
  whose message ends with the error's message; when the decoded body has a status
  other than \<^verbatim>\<open>success\<close>, the page changes by one \<^verbatim>\<open>error\<close> entry whose
  message ends with the body's \<^verbatim>\<open>message\<close>.  In both cases the room state and
  the rendered tiles are untouched.  When the status is \<^verbatim>\<open>success\<close>, one
  \<^verbatim>\<open>control\<close> entry with the success message is appended, and the room state
  becomes the merge of the body's \<^verbatim>\<open>state\<close> into it when that is present
  (truthy) and stays as it was otherwise; the one thing that can follow the control
  entry is an \<^verbatim>\<open>error\<close> entry for an exception thrown while rendering the merged
  state.
\<close>

theorem control_responses:
  "controlLight_settle R now command (Rejected e) p =
     p\<lparr>diagnostics := diagnostics p @ [console_error ''Error controlling light:'' (Caught e)],
       console := removeOldest 100 (console p @
         [plain_entry now ''error'' (''Error controlling light: '' @ message e)])\<rparr>
   \<and> (failed \<noteq> JNull \<and> read_prop R failed ''status'' \<noteq> Some (JStr ''success'') \<longrightarrow>
        controlLight_settle R now command (Body failed) p =
          p\<lparr>console := removeOldest 100 (console p @
            [plain_entry now ''error''
               (''Failed to turn '' @ command @ '' light: '' @
                ToString R (read_prop R failed ''message''))])\<rparr>)
   \<and> (read_prop R ok ''status'' = Some (JStr ''success'') \<longrightarrow>
        systemState (controlLight_settle R now command (Body ok) p) =
          (case read_prop R ok ''state'' of
             None \<Rightarrow> systemState p
           | Some st \<Rightarrow> if truthy (Some st) then Object_assign R (systemState p) st
                        else systemState p)
        \<and> (\<exists>extra. console (controlLight_settle R now command (Body ok) p) =
              removeOldest 100 (removeOldest 100 (console p @
                [plain_entry now ''control'' (''Light turned '' @ command @ '' successfully'')])
                @ extra)
            \<and> (extra = [] \<or>
                 (\<exists>m. extra = [plain_entry now ''error'' (''Error controlling light: '' @ m)]))))
   \<and> toggleOverride_settle R now newState (Rejected e) p =
     p\<lparr>diagnostics := diagnostics p @ [console_error ''Error toggling override:'' (Caught e)],
       console := removeOldest 100 (console p @
         [plain_entry now ''error'' (''Error toggling override: '' @ message e)])\<rparr>
   \<and> (failed \<noteq> JNull \<and> read_prop R failed ''status'' \<noteq> Some (JStr ''success'') \<longrightarrow>
        toggleOverride_settle R now newState (Body failed) p =
          p\<lparr>console := removeOldest 100 (console p @
            [plain_entry now ''error''
               (''Failed to toggle override: '' @ ToString R (read_prop R failed ''message''))])\<rparr>)
   \<and> (read_prop R ok ''status'' = Some (JStr ''success'') \<longrightarrow>
        systemState (toggleOverride_settle R now newState (Body ok) p) =
          (case read_prop R ok ''state'' of
             None \<Rightarrow> systemState p
           | Some st \<Rightarrow> if truthy (Some st) then Object_assign R (systemState p) st
                        else systemState p)
        \<and> (\<exists>extra. console (toggleOverride_settle R now newState (Body ok) p) =
              removeOldest 100 (removeOldest 100 (console p @
                [plain_entry now ''control''
                   (''Manual override '' @ (if newState then ''enabled'' else ''disabled''))])
                @ extra)
            \<and> (extra = [] \<or>
                 (\<exists>m. extra = [plain_entry now ''error'' (''Error toggling override: '' @ m)]))))"
  using controlLight_rejected [of R now command e p]
    controlLight_failed [of failed R now command p]
    controlLight_success [of R ok now command p]
    toggleOverride_rejected [of R now newState e p]
    toggleOverride_failed [of failed R now newState p]
    toggleOverride_success [of R ok now newState p]
  by blast

theorem control_responses_witness:
  "body_failed \<noteq> JNull
   \<and> read_prop sample_runtime body_failed ''status'' \<noteq> Some (JStr ''success'')
   \<and> read_prop sample_runtime body_success ''status'' = Some (JStr ''success'')
   \<and> controlLight_settle sample_runtime ''12:00:00'' ''on'' (Body body_failed) room_page_loaded =
       room_page_loaded\<lparr>console :=
         [plain_entry ''12:00:00'' ''error'' ''Failed to turn on light: Arduino not connected'']\<rparr>
   \<and> toggleOverride_settle sample_runtime ''12:00:00'' True (Body body_failed) room_page_loaded =
       room_page_loaded\<lparr>console :=
         [plain_entry ''12:00:00'' ''error'' ''Failed to toggle override: Arduino not connected'']\<rparr>
   \<and> map_of (systemState (controlLight_settle sample_runtime ''12:00:00'' ''on''
        (Body body_success) room_page_loaded)) ''light_state'' = Some (JBool True)
   \<and> map_of (systemState (toggleOverride_settle sample_runtime ''12:00:00'' True
        (Body body_success) room_page_loaded)) ''light_state'' = Some (JBool True)"
proof -
  have h: "body_failed \<noteq> JNull"
    "read_prop sample_runtime body_failed ''status'' \<noteq> Some (JStr ''success'')"
    "read_prop sample_runtime body_success ''status'' = Some (JStr ''success'')"
    by (simp_all add: body_failed_def body_success_def read_prop_def)
  have v: "read_prop sample_runtime body_failed ''message'' = Some (JStr ''Arduino not connected'')"
    "read_prop sample_runtime body_success ''state'' = Some (JObj [(''light_state'', JBool True)])"
    by (simp_all add: body_failed_def body_success_def read_prop_def)
  have c: "console room_page_loaded = []" "systemState room_page_loaded = systemState_init"
    by (simp_all add: room_page_loaded_def)
  show ?thesis
    using h control_responses [of sample_runtime "''12:00:00''" "''on''" "Exn ''x''"
        room_page_loaded body_failed body_success True]
    by (simp add: v c removeOldest_fits ToString_def map_of_Object_assign)
qed

subsection \<open>The capacity of the log\<close>

lemma addLogEntry_room_bounded:
  assumes "addLogEntry_room R now data p = Done q"
  shows "length (console q) \<le> 100"
    and "\<exists>e. console q = drop (Suc (length (console p)) - 100) (console p @ [e])"
  using assms
  by (auto simp: addLogEntry_room_def Let_def removeOldest_drop split: sum.splits)

lemma addLogEntry_room_threw:
  "addLogEntry_room R now data p = Threw e q \<Longrightarrow> q = p"
  by (auto simp: addLogEntry_room_def Let_def split: sum.splits)

lemma addLogEntry_dash_bounded:
  assumes "addLogEntry_dash R data p = Done q" "length (dash_console p) \<le> 500"
  shows "length (dash_console q) \<le> 500"
    and "dash_console q = dash_console p \<or>
         (\<exists>e. dash_console q = drop (Suc (length (dash_console p)) - 500) (dash_console p @ [e]))"
  using assms
  by (auto simp: addLogEntry_dash_def Let_def removeOldest_drop log_diag_def
           split: sum.splits if_splits)

lemma addLogEntry_dash_threw:
  "addLogEntry_dash R data p = Threw e q \<Longrightarrow> dash_console q = dash_console p"
  by (auto simp: addLogEntry_dash_def Let_def log_diag_def split: sum.splits if_splits)

text \<open>
  C2.  Both \<^verbatim>\<open>addLogEntry\<close> functions end with the loop that removes the oldest
  children while there are more than the capacity (100 in the room-control view, 500
  in the log/storage view): the four lemmas above.  The click handler of the cleanup
  button of the log/storage view appends its entry with \<^verbatim>\<open>appendChild\<close> and has
  no such loop (nor has the handler of the storage button): on a console that holds
  500 entries, a cleanup response that reports an error leaves 501.
\<close>

theorem cleanup_entry_exceeds_capacity:
  "length (dash_console (cleanup_settle R now (Body (JObj [(''error'', JStr ''busy'')]))
      (p\<lparr>dash_console := replicate 500 (TextEntry ''x'')\<rparr>))) = 501"
  by (simp add: cleanup_settle_def cleanup_then_def get_prop_def read_prop_def log_diag_def
        Let_def)

subsection \<open>Which events are logged\<close>

lemma addLogEntry_room_typed:
  "\<exists>e. addLogEntry_room R now (Some (JObj ((''type'', JStr tag) # kvs))) p =
         Done (p\<lparr>console := removeOldest 100 (console p @ [e])\<rparr>)"
  by (auto simp: addLogEntry_room_def get_prop_def read_prop_def type_label_def Let_def)

lemma console_dispatch_room:
  assumes "data \<noteq> JNull"
  shows "read_prop R data ''type'' = Some (JStr ''welcome'') \<or>
         read_prop R data ''type'' = Some (JStr ''override'') \<Longrightarrow>
           appends_one 100 (console p) (console (state_of (dispatch_room R now data p)))"
    and "read_prop R data ''type'' = Some (JStr ''update'') \<Longrightarrow> merges_cleanly R data p \<Longrightarrow>
           appends_one 100 (console p) (console (state_of (dispatch_room R now data p)))"
    and "read_prop R data ''type'' \<noteq> Some (JStr ''update'') \<Longrightarrow>
         read_prop R data ''type'' \<noteq> Some (JStr ''welcome'') \<Longrightarrow>
         read_prop R data ''type'' \<noteq> Some (JStr ''override'') \<Longrightarrow>
           console (state_of (dispatch_room R now data p)) = console p"
proof -
  note ty = get_prop_Some [OF assms, of R "''type''"]
  {
    assume "read_prop R data ''type'' = Some (JStr ''welcome'') \<or>
            read_prop R data ''type'' = Some (JStr ''override'')"
    then show "appends_one 100 (console p) (console (state_of (dispatch_room R now data p)))"
    proof
      assume w: "read_prop R data ''type'' = Some (JStr ''welcome'')"
      obtain e where "addLogEntry_room R now
               (Some (JObj ((''type'', JStr ''welcome'') # obj_lit
                  [(''timestamp'', read_prop R data ''timestamp''),
                   (''message'', Some (JStr (''Welcome '' @ ToString R (read_prop R data ''user_name'') @ ''!''))),
                   (''user'', read_prop R data ''user_name'')]))) p =
            Done (p\<lparr>console := removeOldest 100 (console p @ [e])\<rparr>)"
        using addLogEntry_room_typed by blast
      then show ?thesis
        unfolding dispatch_room_def ty sum.case Let_def w appends_one_def
        by (intro exI [of _ e]) simp
    next
      assume w: "read_prop R data ''type'' = Some (JStr ''override'')"
      obtain e where "addLogEntry_room R now
               (Some (JObj ((''type'', JStr ''control'') # obj_lit
                     [(''timestamp'', read_prop R data ''timestamp''),
                      (''message'', Some (JStr (''Manual override '' @
                          (if truthy (read_prop R data ''enabled'') then ''enabled'' else ''disabled'')))),
                      (''details'', Some (JObj (obj_lit [(''enabled'', read_prop R data ''enabled'')])))]))) p =
            Done (p\<lparr>console := removeOldest 100 (console p @ [e])\<rparr>)"
        using addLogEntry_room_typed by blast
      then show ?thesis
        unfolding dispatch_room_def ty sum.case Let_def w appends_one_def
        by (intro exI [of _ e]) simp
    qed
  }
  {
    assume u: "read_prop R data ''type'' = Some (JStr ''update'')" and m: "merges_cleanly R data p"
    let ?merge = "case read_prop R data ''system_state'' of
                    None \<Rightarrow> Done p
                  | Some ss \<Rightarrow> if truthy (Some ss) then updateSystemState R ss p else Done p"
    have "\<exists>p1. ?merge = Done p1 \<and> console p1 = console p"
    proof (cases "read_prop R data ''system_state''")
      case None
      then show ?thesis by simp
    next
      case (Some ss)
      show ?thesis
      proof (cases "truthy (Some ss)")
        case True
        with m Some obtain q where q: "updateSystemState R ss p = Done q"
          by (auto simp: merges_cleanly_def)
        with console_updateSystemState [of R ss p] have "console q = console p" by simp
        with Some True q show ?thesis by simp
      next
        case False
        with Some show ?thesis by simp
      qed
    qed
    then obtain p1 where p1: "?merge = Done p1" and c1: "console p1 = console p" by blast
    obtain e where "addLogEntry_room R now
               (Some (JObj ((''type'', JStr ''update'') # obj_lit
                                [(''timestamp'', read_prop R data ''timestamp''),
                                 (''message'', Some (JStr ''System state updated'')),
                                 (''details'', read_prop R data ''data'')]))) p1 =
            Done (p1\<lparr>console := removeOldest 100 (console p1 @ [e])\<rparr>)"
      using addLogEntry_room_typed by blast
    then show "appends_one 100 (console p) (console (state_of (dispatch_room R now data p)))"
      unfolding dispatch_room_def ty sum.case Let_def u appends_one_def
      using p1 c1 by (intro exI [of _ e]) simp
  }
  {
    assume n: "read_prop R data ''type'' \<noteq> Some (JStr ''update'')"
      "read_prop R data ''type'' \<noteq> Some (JStr ''welcome'')"
      "read_prop R data ''type'' \<noteq> Some (JStr ''override'')"
    show "console (state_of (dispatch_room R now data p)) = console p"
    proof (cases "read_prop R data ''type'' = Some (JStr ''initial_state'')")
      case True
      then show ?thesis
        unfolding dispatch_room_def ty sum.case Let_def
        by (simp add: state_of_and_then split: option.splits result.splits)
           (metis console_updateSystemState state_of.simps)
    next
      case False
      with n show ?thesis
        unfolding dispatch_room_def ty sum.case Let_def by simp
    qed
  }
qed

lemma updateSystemState_Done_no_diag:
  "(\<exists>q. updateSystemState R ss (log_diag x p) = Done q) \<longleftrightarrow>
   (\<exists>q. updateSystemState R ss p = Done q)"
proof -
  have "map_result no_diag (updateSystemState R ss (log_diag x p)) =
        map_result no_diag (updateSystemState R ss p)"
    unfolding log_diag_def by (rule updateSystemState_no_diag)
  then show ?thesis
    by (cases "updateSystemState R ss (log_diag x p)"; cases "updateSystemState R ss p") auto
qed

lemma merges_cleanly_log_diag:
  "merges_cleanly R data (log_diag x p) = merges_cleanly R data p"
  by (simp add: merges_cleanly_def updateSystemState_Done_no_diag split: option.splits)

lemma console_onmessage_room:
  assumes "JSON_parse R raw = Inr data"
  shows "console (onmessage_room R now raw p) =
         console (state_of (dispatch_room R now data
           (log_diag (console_log ''Event received:'' (Val (Some data))) p)))"
  unfolding onmessage_room_def assms sum.case
  by (cases "dispatch_room R now data
           (log_diag (console_log ''Event received:'' (Val (Some data))) p)") simp_all

lemma dash_console_updateStats [simp]:
  "dash_console (updateStats R since st p) = dash_console p"
  by (simp add: updateStats_def log_diag_def Let_def split: option.splits)

lemma dash_console_log_diag [simp]: "dash_console (log_diag x p) = dash_console p"
  by (simp add: log_diag_def)

lemma dash_console_onmessage:
  assumes "JSON_parse R raw = Inr data"
  shows "dash_console (onmessage_dash R since raw q) =
         dash_console (state_of (addLogEntry_dash R data q))"
proof -
  let ?q = "log_diag (console_log ''Parsed event data:'' (Val (Some data)))
              (log_diag (console_log ''Raw event received:'' (Val (Some (JStr raw)))) q)"
  have "map_result no_diag (addLogEntry_dash R data ?q) =
        map_result no_diag (addLogEntry_dash R data q)"
    unfolding log_diag_def by (simp add: addLogEntry_dash_no_diag)
  then have eq: "dash_console (state_of (addLogEntry_dash R data ?q)) =
             dash_console (state_of (addLogEntry_dash R data q))"
    by (cases "addLogEntry_dash R data ?q"; cases "addLogEntry_dash R data q")
       (auto simp: no_diag_def dest: arg_cong [where f = dash_console])
  have "dash_console (onmessage_dash R since raw q) =
        dash_console (state_of (addLogEntry_dash R data ?q))"
    unfolding onmessage_dash_def assms sum.case Let_def
    by (cases "addLogEntry_dash R data ?q") simp_all
  with eq show ?thesis by simp
qed

lemma dash_console_addLogEntry:
  assumes "data \<noteq> JNull"
  shows "read_prop R data ''type'' = Some (JStr ''stats'') \<Longrightarrow>
           dash_console (state_of (addLogEntry_dash R data q)) = dash_console q"
    and "read_prop R data ''type'' \<noteq> Some (JStr ''stats'') \<Longrightarrow>
         read_prop R data ''type'' \<noteq> Some (JStr ''message'') \<Longrightarrow>
           dash_console (state_of (addLogEntry_dash R data q)) =
             removeOldest 500 (dash_console q @
               [TextEntry (case data of JStr s \<Rightarrow> s | _ \<Rightarrow> JSON_stringify R 0 data)])"
    and "read_prop R data ''type'' = Some (JStr ''message'') \<Longrightarrow>
         read_prop R data ''data'' \<noteq> None \<Longrightarrow> read_prop R data ''data'' \<noteq> Some JNull \<Longrightarrow>
           appends_one 500 (dash_console q) (dash_console (state_of (addLogEntry_dash R data q)))"
  using assms
  by (auto simp: addLogEntry_dash_def get_prop_Some Let_def appends_one_def get_prop_def
           split: option.splits json.splits)


text \<open>
  C7, as the code has it.  Let a frame decode to an event other than \<^verbatim>\<open>null\<close>.
  In the log/storage view a \<^verbatim>\<open>stats\<close> event adds no entry; an event whose type
  is neither \<^verbatim>\<open>stats\<close> nor \<^verbatim>\<open>message\<close> (an unrecognised type included) adds
  exactly one entry, whose text is the event stringified, or the event itself when it
  is a string; a \<^verbatim>\<open>message\<close> event whose \<^verbatim>\<open>data\<close> field is present and
  not \<^verbatim>\<open>null\<close> adds exactly one entry.  In the room-control view exactly one
  entry is added for a \<^verbatim>\<open>welcome\<close> event, for an \<^verbatim>\<open>override\<close> event, and
  for an \<^verbatim>\<open>update\<close> event whose payload merges and renders without an
  exception; an event of any other type, \<^verbatim>\<open>initial_state\<close> and the unrecognised
  types included, adds none.
\<close>

theorem events_logged_per_view:
  assumes "JSON_parse R raw = Inr data" and "data \<noteq> JNull"
  shows "(read_prop R data ''type'' = Some (JStr ''stats'') \<longrightarrow>
            dash_console (onmessage_dash R since raw q) = dash_console q)
       \<and> (read_prop R data ''type'' \<noteq> Some (JStr ''stats'') \<and>
          read_prop R data ''type'' \<noteq> Some (JStr ''message'') \<longrightarrow>
            dash_console (onmessage_dash R since raw q) =
              removeOldest 500 (dash_console q @
                [TextEntry (case data of JStr s \<Rightarrow> s | _ \<Rightarrow> JSON_stringify R 0 data)]))
       \<and> (read_prop R data ''type'' = Some (JStr ''message'') \<and>
          read_prop R data ''data'' \<noteq> None \<and> read_prop R data ''data'' \<noteq> Some JNull \<longrightarrow>
            appends_one 500 (dash_console q) (dash_console (onmessage_dash R since raw q)))
       \<and> (read_prop R data ''type'' = Some (JStr ''welcome'') \<or>
          read_prop R data ''type'' = Some (JStr ''override'') \<longrightarrow>
            appends_one 100 (console p) (console (onmessage_room R now raw p)))
       \<and> (read_prop R data ''type'' = Some (JStr ''update'') \<and> merges_cleanly R data p \<longrightarrow>
            appends_one 100 (console p) (console (onmessage_room R now raw p)))
       \<and> (read_prop R data ''type'' \<noteq> Some (JStr ''update'') \<and>
          read_prop R data ''type'' \<noteq> Some (JStr ''welcome'') \<and>
          read_prop R data ''type'' \<noteq> Some (JStr ''override'') \<longrightarrow>
            console (onmessage_room R now raw p) = console p)"
proof -
  let ?p = "log_diag (console_log ''Event received:'' (Val (Some data))) p"
  have cp: "console ?p = console p" by simp
  have mc: "merges_cleanly R data ?p = merges_cleanly R data p"
    by (rule merges_cleanly_log_diag)
  show ?thesis
    unfolding dash_console_onmessage [OF assms(1)] console_onmessage_room [OF assms(1)]
    using dash_console_addLogEntry [OF assms(2), where R = R and q = q]
      console_dispatch_room [OF assms(2), where R = R and p = ?p and now = now]
    unfolding cp mc
    by blast
qed

theorem events_logged_per_view_witness:
  "JSON_parse sample_runtime frame_stats = Inr event_stats \<and> event_stats \<noteq> JNull
   \<and> dash_console (onmessage_dash sample_runtime sample_since frame_stats dash_page_loaded) = []
   \<and> JSON_parse sample_runtime frame_heartbeat = Inr event_heartbeat \<and> event_heartbeat \<noteq> JNull
   \<and> dash_console (onmessage_dash sample_runtime sample_since frame_heartbeat dash_page_loaded) =
       [TextEntry ''JSON'']
   \<and> console (onmessage_room sample_runtime ''12:00:00'' frame_heartbeat room_page_loaded) = []
   \<and> JSON_parse sample_runtime frame_message = Inr event_message \<and> event_message \<noteq> JNull
   \<and> appends_one 500 []
       (dash_console (onmessage_dash sample_runtime sample_since frame_message dash_page_loaded))
   \<and> JSON_parse sample_runtime frame_welcome = Inr event_welcome \<and> event_welcome \<noteq> JNull
   \<and> appends_one 100 []
       (console (onmessage_room sample_runtime ''12:00:00'' frame_welcome room_page_loaded))
   \<and> JSON_parse sample_runtime frame_override = Inr event_override \<and> event_override \<noteq> JNull
   \<and> appends_one 100 []
       (console (onmessage_room sample_runtime ''12:00:00'' frame_override room_page_loaded))
   \<and> JSON_parse sample_runtime frame_dim = Inr event_dim \<and> event_dim \<noteq> JNull
   \<and> merges_cleanly sample_runtime event_dim room_page_loaded
   \<and> appends_one 100 []
       (console (onmessage_room sample_runtime ''12:00:00'' frame_dim room_page_loaded))"
proof -
  have parse: "JSON_parse sample_runtime frame_stats = Inr event_stats"
    "JSON_parse sample_runtime frame_heartbeat = Inr event_heartbeat"
    "JSON_parse sample_runtime frame_message = Inr event_message"
    "JSON_parse sample_runtime frame_welcome = Inr event_welcome"
    "JSON_parse sample_runtime frame_dim = Inr event_dim"
    "JSON_parse sample_runtime frame_override = Inr event_override"
    by (simp_all add: sample_runtime_def sample_frames_def frame_bright_def frame_dim_def
          frame_heartbeat_def frame_welcome_def frame_stats_def frame_message_def
          frame_override_def)
  have nn: "event_stats \<noteq> JNull" "event_heartbeat \<noteq> JNull" "event_message \<noteq> JNull"
    "event_welcome \<noteq> JNull" "event_dim \<noteq> JNull" "event_override \<noteq> JNull"
    by (simp_all add: sample_defs)
  have ty: "read_prop sample_runtime event_stats ''type'' = Some (JStr ''stats'')"
    "read_prop sample_runtime event_heartbeat ''type'' = Some (JStr ''heartbeat'')"
    "read_prop sample_runtime event_message ''type'' = Some (JStr ''message'')"
    "read_prop sample_runtime event_message ''data'' =
       Some (JObj [(''source'', JStr ''arduino''), (''status'', JStr ''ok'')])"
    "read_prop sample_runtime event_welcome ''type'' = Some (JStr ''welcome'')"
    "read_prop sample_runtime event_dim ''type'' = Some (JStr ''update'')"
    "read_prop sample_runtime event_override ''type'' = Some (JStr ''override'')"
    by (simp_all add: sample_defs read_prop_def)
  have mc: "merges_cleanly sample_runtime event_dim room_page_loaded"
    by (simp add: merges_cleanly_def event_dim_def read_prop_def updateSystemState_def
          room_page_loaded_def updateUI_def updateUsersInRoom_def Object_assign_def
          systemState_init_def js_gt_def ToNumber_def get_prop_def Let_def)
  have pages: "dash_console dash_page_loaded = []" "console room_page_loaded = []"
    by (simp_all add: dash_page_loaded_def room_page_loaded_def)
  have shown: "(case event_heartbeat of JStr s \<Rightarrow> s | _ \<Rightarrow> JSON_stringify sample_runtime 0 event_heartbeat)
      = ''JSON''"
    by (simp add: event_heartbeat_def sample_runtime_def)
  show ?thesis
    using parse nn mc
      events_logged_per_view [OF parse(1) nn(1), where since = sample_since
        and q = dash_page_loaded and p = room_page_loaded and now = "''12:00:00''"]
      events_logged_per_view [OF parse(2) nn(2), where since = sample_since
        and q = dash_page_loaded and p = room_page_loaded and now = "''12:00:00''"]
      events_logged_per_view [OF parse(3) nn(3), where since = sample_since
        and q = dash_page_loaded and p = room_page_loaded and now = "''12:00:00''"]
      events_logged_per_view [OF parse(4) nn(4), where since = sample_since
        and q = dash_page_loaded and p = room_page_loaded and now = "''12:00:00''"]
      events_logged_per_view [OF parse(5) nn(5), where since = sample_since
        and q = dash_page_loaded and p = room_page_loaded and now = "''12:00:00''"]
      events_logged_per_view [OF parse(6) nn(6), where since = sample_since
        and q = dash_page_loaded and p = room_page_loaded and now = "''12:00:00''"]
    unfolding ty pages shown
    by (simp add: removeOldest_fits)
qed

text \<open>
  C7 as stated fails in the room-control view: a frame that decodes to an event of
  the unrecognised type \<^verbatim>\<open>heartbeat\<close>, which is not \<^verbatim>\<open>stats\<close>, leaves the
  log of a freshly loaded page empty.
\<close>

theorem room_view_ignores_unrecognised_event:
  "JSON_parse sample_runtime frame_heartbeat = Inr event_heartbeat
   \<and> read_prop sample_runtime event_heartbeat ''type'' = Some (JStr ''heartbeat'')
   \<and> console room_page_loaded = []
   \<and> console (onmessage_room sample_runtime ''12:00:00'' frame_heartbeat room_page_loaded) = []"
  by (simp add: sample_defs read_prop_def room_page_loaded_def onmessage_room_def
        dispatch_room_def get_prop_def log_diag_def)

subsection \<open>Entries built from incomplete data\<close>

lemma addLogEntry_room_missing_fields:
  assumes "map_of kvs ''type'' = None \<or> (\<exists>s. map_of kvs ''type'' = Some (JStr s))"
  shows "\<exists>e. addLogEntry_room R now (Some (JObj kvs)) p =
               Done (p\<lparr>console := removeOldest 100 (console p @ [e])\<rparr>)
           \<and> (\<not> truthy (map_of kvs ''timestamp'') \<longrightarrow> entry_timestamp e = now)
           \<and> (map_of kvs ''type'' = None \<longrightarrow> entry_type e = ''INFO'')
           \<and> (map_of kvs ''message'' = None \<longrightarrow> entry_message e = [])
           \<and> (map_of kvs ''user'' = None \<longrightarrow> entry_user e = None)
           \<and> (map_of kvs ''details'' = None \<longrightarrow> entry_details e = None)"
  using assms
  by (auto simp: addLogEntry_room_def get_prop_def read_prop_def type_label_def Let_def
        js_or_def dom_text_def)

lemma addLogEntry_dash_message:
  assumes "read_prop R data ''type'' = Some (JStr ''message'')"
    and "read_prop R data ''data'' = Some dd" and "dd \<noteq> JNull"
  shows "addLogEntry_dash R data q =
           Done ((log_diag (console_log ''Adding log entry for:'' (Val (Some data))) q)
             \<lparr>dash_console := removeOldest 500 (dash_console q @
               [MessageEntry
                  (dom_text R (read_prop R data ''timestamp''))
                  (dom_text R (js_or (read_prop R dd ''source'') (Some (JStr ''unknown''))))
                  (dom_text R (js_or (read_prop R dd ''status'') (Some (JStr ''''))))
                  (JSON_stringify R 2
                     (JObj (AList.delete ''status'' (AList.delete ''source'' (own_props R dd)))))])\<rparr>)"
proof -
  from assms(1) have nn: "data \<noteq> JNull" by (auto simp: read_prop_def)
  show ?thesis
    using assms
    by (simp add: addLogEntry_dash_def get_prop_Some [OF nn] get_prop_Some [OF assms(3)] Let_def)
qed

text \<open>
  C9, as the code has it.  In the room-control view, \<^verbatim>\<open>addLogEntry\<close> on an
  object whose \<^verbatim>\<open>type\<close> is absent or a string never throws and appends exactly
  one entry; when the \<^verbatim>\<open>timestamp\<close> field is absent (or otherwise falsy) the
  entry shows the local clock time, and an absent type, message, user or details
  field gives the tag \<^verbatim>\<open>INFO\<close>, an empty message, no user badge and no details
  block.  In the log/storage view, \<^verbatim>\<open>addLogEntry\<close> on a \<^verbatim>\<open>message\<close> event
  that carries a \<^verbatim>\<open>data\<close> value appends one entry that shows the event's
  \<^verbatim>\<open>timestamp\<close> field as received, which is the empty text when the field is
  absent: that view never reads the clock for a log entry.  An absent source or
  status shows as \<^verbatim>\<open>unknown\<close> and as the empty text.
\<close>

theorem timestamp_fallback_per_view:
  "(map_of kvs ''type'' = None \<or> (\<exists>s. map_of kvs ''type'' = Some (JStr s)) \<longrightarrow>
      (\<exists>e. addLogEntry_room R now (Some (JObj kvs)) p =
               Done (p\<lparr>console := removeOldest 100 (console p @ [e])\<rparr>)
           \<and> (\<not> truthy (map_of kvs ''timestamp'') \<longrightarrow> entry_timestamp e = now)
           \<and> (map_of kvs ''type'' = None \<longrightarrow> entry_type e = ''INFO'')
           \<and> (map_of kvs ''message'' = None \<longrightarrow> entry_message e = [])
           \<and> (map_of kvs ''user'' = None \<longrightarrow> entry_user e = None)
           \<and> (map_of kvs ''details'' = None \<longrightarrow> entry_details e = None)))
   \<and> (read_prop R data ''type'' = Some (JStr ''message'') \<and>
      read_prop R data ''data'' = Some dd \<and> dd \<noteq> JNull \<longrightarrow>
        addLogEntry_dash R data q =
           Done ((log_diag (console_log ''Adding log entry for:'' (Val (Some data))) q)
             \<lparr>dash_console := removeOldest 500 (dash_console q @
               [MessageEntry
                  (dom_text R (read_prop R data ''timestamp''))
                  (dom_text R (js_or (read_prop R dd ''source'') (Some (JStr ''unknown''))))
                  (dom_text R (js_or (read_prop R dd ''status'') (Some (JStr ''''))))
                  (JSON_stringify R 2
                     (JObj (AList.delete ''status'' (AList.delete ''source'' (own_props R dd)))))])\<rparr>)
        \<and> (read_prop R data ''timestamp'' = None \<longrightarrow>
             dom_text R (read_prop R data ''timestamp'') = []))"
  using addLogEntry_room_missing_fields [of kvs R now p]
    addLogEntry_dash_message [of R data dd q]
  by (simp add: dom_text_def)

theorem timestamp_fallback_per_view_witness:
  "map_of [(''message'', JStr ''Smart Room Dashboard initialized'')] ''type'' = None
   \<and> \<not> truthy (map_of [(''message'', JStr ''Smart Room Dashboard initialized'')] ''timestamp'')
   \<and> (\<exists>e. addLogEntry_room sample_runtime ''12:00:00''
             (Some (JObj [(''message'', JStr ''Smart Room Dashboard initialized'')]))
             room_page_loaded =
           Done (room_page_loaded\<lparr>console := [e]\<rparr>)
         \<and> entry_timestamp e = ''12:00:00'' \<and> entry_type e = ''INFO'')
   \<and> read_prop sample_runtime event_message ''type'' = Some (JStr ''message'')
   \<and> read_prop sample_runtime event_message ''data'' =
        Some (JObj [(''source'', JStr ''arduino''), (''status'', JStr ''ok'')])
   \<and> read_prop sample_runtime event_message ''timestamp'' = None
   \<and> dash_console (state_of (addLogEntry_dash sample_runtime event_message dash_page_loaded)) =
        [MessageEntry [] ''arduino'' ''ok'' ''JSON'']"
proof -
  let ?kvs = "[(''message'', JStr ''Smart Room Dashboard initialized'')]"
  let ?dd = "JObj [(''source'', JStr ''arduino''), (''status'', JStr ''ok'')]"
  have h: "map_of ?kvs ''type'' = None" "\<not> truthy (map_of ?kvs ''timestamp'')"
    "read_prop sample_runtime event_message ''type'' = Some (JStr ''message'')"
    "read_prop sample_runtime event_message ''data'' = Some ?dd"
    "read_prop sample_runtime event_message ''timestamp'' = None"
    "?dd \<noteq> JNull"
    by (simp_all add: event_message_def read_prop_def)
  note inst = timestamp_fallback_per_view [where kvs = ?kvs and R = sample_runtime
        and now = "''12:00:00''" and p = room_page_loaded and data = event_message
        and dd = ?dd and q = dash_page_loaded]
  have c: "console room_page_loaded = []" "dash_console dash_page_loaded = []"
    by (simp_all add: room_page_loaded_def dash_page_loaded_def)
  have v: "read_prop sample_runtime ?dd ''source'' = Some (JStr ''arduino'')"
    "read_prop sample_runtime ?dd ''status'' = Some (JStr ''ok'')"
    "\<And>n j. JSON_stringify sample_runtime n j = ''JSON''"
    by (simp_all add: read_prop_def sample_runtime_def)
  from inst h(1,2) obtain e where
    e: "addLogEntry_room sample_runtime ''12:00:00'' (Some (JObj ?kvs)) room_page_loaded =
          Done (room_page_loaded\<lparr>console :=
            removeOldest 100 (console room_page_loaded @ [e])\<rparr>)"
      "entry_timestamp e = ''12:00:00''" "entry_type e = ''INFO''"
    by blast
  have room: "\<exists>e. addLogEntry_room sample_runtime ''12:00:00'' (Some (JObj ?kvs))
                      room_page_loaded =
           Done (room_page_loaded\<lparr>console := [e]\<rparr>)
         \<and> entry_timestamp e = ''12:00:00'' \<and> entry_type e = ''INFO''"
    using e by (intro exI [of _ e]) (simp add: c removeOldest_fits)
  from inst h(3,4,6) have
    "addLogEntry_dash sample_runtime event_message dash_page_loaded =
       Done ((log_diag (console_log ''Adding log entry for:'' (Val (Some event_message)))
                dash_page_loaded)
         \<lparr>dash_console := removeOldest 500 (dash_console dash_page_loaded @
           [MessageEntry
              (dom_text sample_runtime (read_prop sample_runtime event_message ''timestamp''))
              (dom_text sample_runtime
                 (js_or (read_prop sample_runtime ?dd ''source'') (Some (JStr ''unknown''))))
              (dom_text sample_runtime
                 (js_or (read_prop sample_runtime ?dd ''status'') (Some (JStr ''''))))
              (JSON_stringify sample_runtime 2
                 (JObj (AList.delete ''status'' (AList.delete ''source''
                    (own_props sample_runtime ?dd)))))])\<rparr>)"
    by blast
  then have dash:
    "dash_console (state_of (addLogEntry_dash sample_runtime event_message dash_page_loaded)) =
        [MessageEntry [] ''arduino'' ''ok'' ''JSON'']"
    by (simp add: c h(5) v removeOldest_fits js_or_def dom_text_def)
  from h room dash show ?thesis by blast
qed

text \<open>
  C9 as stated fails in the log/storage view: a \<^verbatim>\<open>message\<close> event without a
  \<^verbatim>\<open>timestamp\<close> field is logged with an empty timestamp, not with a clock time.
\<close>

theorem log_view_shows_no_clock_time:
  "JSON_parse sample_runtime frame_message = Inr event_message
   \<and> read_prop sample_runtime event_message ''timestamp'' = None
   \<and> dash_console (onmessage_dash sample_runtime sample_since frame_message dash_page_loaded) =
        [MessageEntry [] ''arduino'' ''ok'' ''JSON'']"
  by (simp add: sample_defs read_prop_def dash_page_loaded_def onmessage_dash_def
        addLogEntry_dash_def get_prop_def log_diag_def Let_def js_or_def dom_text_def
        removeOldest_fits AList.delete_eq)

subsection \<open>Rendering\<close>

lemma forEach_user_transfer:
  "forEach_user R us xs d =
     map_result (\<lambda>r. d\<lparr>users_list := users_list r\<rparr>)
       (forEach_user R us xs (d0\<lparr>users_list := users_list d\<rparr>))"
proof (induction xs arbitrary: d d0)
  case Nil
  then show ?case by simp
next
  case (Cons userId xs)
  show ?case
  proof (cases "get_prop R (Some us) (ToString_json R userId)")
    case (Inl e)
    then show ?thesis by simp
  next
    case (Inr u)
    define item where "item = UserItem (ToString R
        (if truthy u then (case u of None \<Rightarrow> None | Some j \<Rightarrow> read_prop R j ''name'')
         else Some (JStr (''User '' @ ToString_json R userId))))"
    have step: "forEach_user R us (userId # xs) d' =
                forEach_user R us xs (d'\<lparr>users_list := users_list d' @ [item]\<rparr>)" for d'
      using Inr by (simp add: item_def Let_def)
    show ?thesis
      unfolding step
      using Cons.IH [of "d\<lparr>users_list := users_list d @ [item]\<rparr>" d0]
      by (cases "forEach_user R us xs (d0\<lparr>users_list := users_list d @ [item]\<rparr>)") simp_all
  qed
qed

lemma updateUsersInRoom_transfer:
  "updateUsersInRoom R us st d =
     map_result (\<lambda>r. d\<lparr>users_list := users_list r\<rparr>) (updateUsersInRoom R us st d0)"
proof -
  have "forEach_user R us xs (d\<lparr>users_list := []\<rparr>) =
        map_result (\<lambda>r. d\<lparr>users_list := users_list r\<rparr>)
          (forEach_user R us xs (d0\<lparr>users_list := []\<rparr>))" for xs
    using forEach_user_transfer [of R us xs "d\<lparr>users_list := []\<rparr>" d0]
    by (cases "forEach_user R us xs (d0\<lparr>users_list := []\<rparr>)") simp_all
  then show ?thesis
    by (simp add: updateUsersInRoom_def Let_def split: option.splits json.splits)
qed


lemma updateLightStatus_sets:
  "\<exists>a i. \<forall>d. updateLightStatus st d = d\<lparr>light_status := a, light_icon := i\<rparr>"
  by (cases "truthy (map_of st ''light_state'')") (auto simp: updateLightStatus_def)

lemma updateDoorStatus_sets:
  "\<exists>a i. \<forall>d. updateDoorStatus st d = d\<lparr>door_status := a, door_icon := i\<rparr>"
  by (cases "truthy (map_of st ''door_state'')") (auto simp: updateDoorStatus_def)

lemma updatePresenceStatus_sets:
  "\<exists>a i. \<forall>d. updatePresenceStatus st d = d\<lparr>presence_status := a, presence_icon := i\<rparr>"
  by (cases "truthy (map_of st ''user_present'')") (auto simp: updatePresenceStatus_def)

lemma updateLuminosityStatus_sets:
  "\<exists>a i. \<forall>d. updateLuminosityStatus R st d = d\<lparr>luminosity_value := a, luminosity_icon := i\<rparr>"
  by (cases "js_gt R (map_of st ''luminosity'') 700"; cases "js_gt R (map_of st ''luminosity'') 300")
     (auto simp: updateLuminosityStatus_def Let_def)

lemma updateOverrideStatus_sets:
  "\<exists>a i b. \<forall>d. updateOverrideStatus st d =
      d\<lparr>override_status := a, override_icon := i, toggle_override := b\<rparr>"
  by (cases "truthy (map_of st ''manual_override'')") (auto simp: updateOverrideStatus_def)

lemma updateArduinoStatus_sets:
  "\<exists>a. \<forall>d. updateArduinoStatus st d = d\<lparr>arduino_status := a\<rparr>"
  by (cases "truthy (map_of st ''arduino_connected'')") (auto simp: updateArduinoStatus_def)

lemma updateUI_from_any_dom:
  "updateUI R us st d' =
     (case updateUI R us st d of
        Done r \<Rightarrow> Done (r\<lparr>last_update := last_update d'\<rparr>)
      | Threw e r \<Rightarrow>
          Threw e (r\<lparr>override_status := override_status d',
                     override_icon := override_icon d',
                     toggle_override := toggle_override d',
                     arduino_status := arduino_status d',
                     last_update := last_update d'\<rparr>))"
proof -
  let ?T = "\<lambda>d. updateLuminosityStatus R st
             (updatePresenceStatus st (updateDoorStatus st (updateLightStatus st d)))"
  let ?O = "\<lambda>d. updateOverrideStatus st (updateArduinoStatus st d)"
  have self: "updateUsersInRoom R us st (?T d) =
        map_result (\<lambda>r. (?T d)\<lparr>users_list := users_list r\<rparr>) (updateUsersInRoom R us st (?T d))"
    by (rule updateUsersInRoom_transfer)
  have other: "updateUsersInRoom R us st (?T d') =
        map_result (\<lambda>r. (?T d')\<lparr>users_list := users_list r\<rparr>) (updateUsersInRoom R us st (?T d))"
    by (rule updateUsersInRoom_transfer)
  obtain a1 i1 a2 i2 a3 i3 a4 i4 a5 i5 b5 a6 where
    sets: "\<And>d. updateLightStatus st d = d\<lparr>light_status := a1, light_icon := i1\<rparr>"
      "\<And>d. updateDoorStatus st d = d\<lparr>door_status := a2, door_icon := i2\<rparr>"
      "\<And>d. updatePresenceStatus st d = d\<lparr>presence_status := a3, presence_icon := i3\<rparr>"
      "\<And>d. updateLuminosityStatus R st d = d\<lparr>luminosity_value := a4, luminosity_icon := i4\<rparr>"
      "\<And>d. updateOverrideStatus st d =
             d\<lparr>override_status := a5, override_icon := i5, toggle_override := b5\<rparr>"
      "\<And>d. updateArduinoStatus st d = d\<lparr>arduino_status := a6\<rparr>"
    using updateLightStatus_sets [of st] updateDoorStatus_sets [of st]
      updatePresenceStatus_sets [of st] updateLuminosityStatus_sets [of R st]
      updateOverrideStatus_sets [of st] updateArduinoStatus_sets [of st]
    by blast
  have done_eq: "?O ((?T d')\<lparr>users_list := l\<rparr>) =
                 (?O ((?T d)\<lparr>users_list := l\<rparr>))\<lparr>last_update := last_update d'\<rparr>" for l
    unfolding sets by (cases d, cases d') simp
  have threw_eq: "(?T d')\<lparr>users_list := l\<rparr> =
                 ((?T d)\<lparr>users_list := l\<rparr>)\<lparr>override_status := override_status d',
                     override_icon := override_icon d',
                     toggle_override := toggle_override d',
                     arduino_status := arduino_status d',
                     last_update := last_update d'\<rparr>" for l
    unfolding sets by (cases d, cases d') simp
  show ?thesis
  proof (cases "updateUsersInRoom R us st (?T d)")
    case (Done r1)
    with self have "r1 = (?T d)\<lparr>users_list := users_list r1\<rparr>" by simp
    then obtain l where l: "users_list r1 = l" and r1: "r1 = (?T d)\<lparr>users_list := l\<rparr>"
      by simp
    have "updateUI R us st d = Done (?O ((?T d)\<lparr>users_list := l\<rparr>))"
      unfolding updateUI_def Done r1 by simp
    moreover have "updateUI R us st d' = Done (?O ((?T d')\<lparr>users_list := l\<rparr>))"
      unfolding updateUI_def other Done using l by simp
    ultimately show ?thesis
      by (simp only: done_eq [of l] result.case)
  next
    case (Threw e r1)
    with self have "r1 = (?T d)\<lparr>users_list := users_list r1\<rparr>" by simp
    then obtain l where l: "users_list r1 = l" and r1: "r1 = (?T d)\<lparr>users_list := l\<rparr>"
      by simp
    have "updateUI R us st d = Threw e ((?T d)\<lparr>users_list := l\<rparr>)"
      unfolding updateUI_def Threw r1 by simp
    moreover have "updateUI R us st d' = Threw e ((?T d')\<lparr>users_list := l\<rparr>)"
      unfolding updateUI_def other Threw using l by simp
    ultimately show ?thesis
      by (simp only: threw_eq [of l] result.case)
  qed
qed

lemma sensor_tiles_updateUI:
  "sensor_tiles (state_of (updateUI R us st d)) =
   sensor_tiles (updateLuminosityStatus R st
     (updatePresenceStatus st (updateDoorStatus st (updateLightStatus st d0))))"
proof -
  let ?T = "\<lambda>d. updateLuminosityStatus R st
             (updatePresenceStatus st (updateDoorStatus st (updateLightStatus st d)))"
  obtain a1 i1 a2 i2 a3 i3 a4 i4 a5 i5 b5 a6 where
    sets: "\<And>d. updateLightStatus st d = d\<lparr>light_status := a1, light_icon := i1\<rparr>"
      "\<And>d. updateDoorStatus st d = d\<lparr>door_status := a2, door_icon := i2\<rparr>"
      "\<And>d. updatePresenceStatus st d = d\<lparr>presence_status := a3, presence_icon := i3\<rparr>"
      "\<And>d. updateLuminosityStatus R st d = d\<lparr>luminosity_value := a4, luminosity_icon := i4\<rparr>"
      "\<And>d. updateOverrideStatus st d =
             d\<lparr>override_status := a5, override_icon := i5, toggle_override := b5\<rparr>"
      "\<And>d. updateArduinoStatus st d = d\<lparr>arduino_status := a6\<rparr>"
    using updateLightStatus_sets [of st] updateDoorStatus_sets [of st]
      updatePresenceStatus_sets [of st] updateLuminosityStatus_sets [of R st]
      updateOverrideStatus_sets [of st] updateArduinoStatus_sets [of st]
    by blast
  have self: "updateUsersInRoom R us st (?T d) =
        map_result (\<lambda>r. (?T d)\<lparr>users_list := users_list r\<rparr>) (updateUsersInRoom R us st (?T d))"
    by (rule updateUsersInRoom_transfer)
  show ?thesis
  proof (cases "updateUsersInRoom R us st (?T d)")
    case (Done r1)
    with self have "r1 = (?T d)\<lparr>users_list := users_list r1\<rparr>" by simp
    then obtain l where r1: "r1 = (?T d)\<lparr>users_list := l\<rparr>" by simp
    have "updateUI R us st d = Done (updateOverrideStatus st (updateArduinoStatus st r1))"
      by (simp add: updateUI_def Done)
    then have "state_of (updateUI R us st d) =
        updateOverrideStatus st (updateArduinoStatus st ((?T d)\<lparr>users_list := l\<rparr>))"
      using r1 by simp
    then show ?thesis
      unfolding sets sensor_tiles_def by simp
  next
    case (Threw e r1)
    with self have "r1 = (?T d)\<lparr>users_list := users_list r1\<rparr>" by simp
    then obtain l where r1: "r1 = (?T d)\<lparr>users_list := l\<rparr>" by simp
    have "updateUI R us st d = Threw e r1"
      by (simp add: updateUI_def Threw)
    then have "state_of (updateUI R us st d) = (?T d)\<lparr>users_list := l\<rparr>"
      using r1 by simp
    then show ?thesis
      unfolding sets sensor_tiles_def by simp
  qed
qed

text \<open>
  C8, as the code has it.  Rendering is a deterministic, idempotent function of the
  room state together with the user directory.  For every room state and directory:
  rendering the page that a rendering left gives that page again, also when the
  users list throws midway; a rendering that completes leaves the same tiles and
  users list whatever the page showed before; the light, door, presence and
  luminosity tiles depend on the room state alone, and so do the override and
  Arduino tiles of completed renderings.  The users list depends on the room state
  and on the directory.
\<close>

theorem rendering_is_idempotent:
  "updateUI R us st (state_of (updateUI R us st d)) = updateUI R us st d
   \<and> (updateUI R us st d = Done r \<longrightarrow>
        updateUI R us st d' = Done (r\<lparr>last_update := last_update d'\<rparr>))
   \<and> sensor_tiles (state_of (updateUI R us st d)) =
       sensor_tiles (state_of (updateUI R us' st d'))
   \<and> (updateUI R us st d = Done r \<and> updateUI R us' st d' = Done r' \<longrightarrow>
        override_tiles r = override_tiles r')"
proof -
  have idem: "updateUI R us st (state_of (updateUI R us st d)) = updateUI R us st d"
    using updateUI_from_any_dom [of R us st "state_of (updateUI R us st d)" d]
    by (cases "updateUI R us st d") simp_all
  have prior: "updateUI R us st d = Done r \<Longrightarrow>
        updateUI R us st d' = Done (r\<lparr>last_update := last_update d'\<rparr>)"
    using updateUI_from_any_dom [of R us st d' d] by simp
  have sensors: "sensor_tiles (state_of (updateUI R us st d)) =
       sensor_tiles (state_of (updateUI R us' st d'))"
    using sensor_tiles_updateUI [of R us st d d] sensor_tiles_updateUI [of R us' st d' d]
    by simp
  have override: "updateUI R us st d = Done r \<Longrightarrow> updateUI R us' st d' = Done r' \<Longrightarrow>
        override_tiles r = override_tiles r'"
  proof -
    assume "updateUI R us st d = Done r" "updateUI R us' st d' = Done r'"
    then obtain r1 r1' where "r = updateOverrideStatus st (updateArduinoStatus st r1)"
      "r' = updateOverrideStatus st (updateArduinoStatus st r1')"
      unfolding updateUI_def
      by (cases "updateUsersInRoom R us st (updateLuminosityStatus R st
             (updatePresenceStatus st (updateDoorStatus st (updateLightStatus st d))))";
          cases "updateUsersInRoom R us' st (updateLuminosityStatus R st
             (updatePresenceStatus st (updateDoorStatus st (updateLightStatus st d'))))")
         auto
    then show "override_tiles r = override_tiles r'"
      using updateOverrideStatus_sets [of st] updateArduinoStatus_sets [of st]
      by (auto simp: override_tiles_def)
  qed
  from idem prior sensors override show ?thesis by blast
qed

theorem rendering_is_idempotent_witness:
  "updateUI sample_runtime (JObj []) systemState_init room_dom_loaded =
     Done (room_dom_loaded\<lparr>
       light_status := \<lparr>textContent = ''OFF'', className = [''status-value'', ''status-off'']\<rparr>,
       light_icon := DimBulb,
       door_status := \<lparr>textContent = ''CLOSED'', className = [''status-value'', ''status-inactive'']\<rparr>,
       door_icon := Door,
       presence_status := \<lparr>textContent = ''NONE'', className = [''status-value'', ''status-inactive'']\<rparr>,
       presence_icon := Person,
       luminosity_value := ''0'',
       luminosity_icon := NewMoon,
       override_status := \<lparr>textContent = ''OFF'', className = [''status-value'', ''status-off'']\<rparr>,
       override_icon := Locked,
       toggle_override := ''Enable Override'',
       users_list := [NoUsers],
       arduino_status := \<lparr>textContent = ''Disconnected'', className = [''stat-value'', ''status-off'']\<rparr>\<rparr>)
   \<and> updateUI sample_runtime (JObj []) systemState_init
       (state_of (updateUI sample_runtime (JObj []) systemState_init room_dom_loaded)) =
     updateUI sample_runtime (JObj []) systemState_init room_dom_loaded
   \<and> updateUI sample_runtime (JObj []) systemState_init
       (room_dom_loaded\<lparr>last_update := ''Just now''\<rparr>) =
     Done (room_dom_loaded\<lparr>
       light_status := \<lparr>textContent = ''OFF'', className = [''status-value'', ''status-off'']\<rparr>,
       light_icon := DimBulb,
       door_status := \<lparr>textContent = ''CLOSED'', className = [''status-value'', ''status-inactive'']\<rparr>,
       door_icon := Door,
       presence_status := \<lparr>textContent = ''NONE'', className = [''status-value'', ''status-inactive'']\<rparr>,
       presence_icon := Person,
       luminosity_value := ''0'',
       luminosity_icon := NewMoon,
       override_status := \<lparr>textContent = ''OFF'', className = [''status-value'', ''status-off'']\<rparr>,
       override_icon := Locked,
       toggle_override := ''Enable Override'',
       users_list := [NoUsers],
       arduino_status := \<lparr>textContent = ''Disconnected'', className = [''stat-value'', ''status-off'']\<rparr>,
       last_update := ''Just now''\<rparr>)"
proof -
  have n: "Number_toString sample_runtime 0 = ''0''"
    by (simp add: sample_runtime_def)
  have r: "updateUI sample_runtime (JObj []) systemState_init room_dom_loaded =
     Done (room_dom_loaded\<lparr>
       light_status := \<lparr>textContent = ''OFF'', className = [''status-value'', ''status-off'']\<rparr>,
       light_icon := DimBulb,
       door_status := \<lparr>textContent = ''CLOSED'', className = [''status-value'', ''status-inactive'']\<rparr>,
       door_icon := Door,
       presence_status := \<lparr>textContent = ''NONE'', className = [''status-value'', ''status-inactive'']\<rparr>,
       presence_icon := Person,
       luminosity_value := ''0'',
       luminosity_icon := NewMoon,
       override_status := \<lparr>textContent = ''OFF'', className = [''status-value'', ''status-off'']\<rparr>,
       override_icon := Locked,
       toggle_override := ''Enable Override'',
       users_list := [NoUsers],
       arduino_status := \<lparr>textContent = ''Disconnected'', className = [''stat-value'', ''status-off'']\<rparr>\<rparr>)"
    by (simp add: updateUI_def updateUsersInRoom_def updateLightStatus_def updateDoorStatus_def
          updatePresenceStatus_def updateLuminosityStatus_def updateOverrideStatus_def
          updateArduinoStatus_def systemState_init_def js_gt_def ToNumber_def dom_text_def
          read_prop_def n Let_def)
  note inst = rendering_is_idempotent [where R = sample_runtime and us = "JObj []"
      and st = systemState_init and d = room_dom_loaded
      and d' = "room_dom_loaded\<lparr>last_update := ''Just now''\<rparr>"]
  from inst have idem: "updateUI sample_runtime (JObj []) systemState_init
       (state_of (updateUI sample_runtime (JObj []) systemState_init room_dom_loaded)) =
     updateUI sample_runtime (JObj []) systemState_init room_dom_loaded"
    by blast
  from inst r have "updateUI sample_runtime (JObj []) systemState_init
       (room_dom_loaded\<lparr>last_update := ''Just now''\<rparr>) =
     Done ((room_dom_loaded\<lparr>
       light_status := \<lparr>textContent = ''OFF'', className = [''status-value'', ''status-off'']\<rparr>,
       light_icon := DimBulb,
       door_status := \<lparr>textContent = ''CLOSED'', className = [''status-value'', ''status-inactive'']\<rparr>,
       door_icon := Door,
       presence_status := \<lparr>textContent = ''NONE'', className = [''status-value'', ''status-inactive'']\<rparr>,
       presence_icon := Person,
       luminosity_value := ''0'',
       luminosity_icon := NewMoon,
       override_status := \<lparr>textContent = ''OFF'', className = [''status-value'', ''status-off'']\<rparr>,
       override_icon := Locked,
       toggle_override := ''Enable Override'',
       users_list := [NoUsers],
       arduino_status := \<lparr>textContent = ''Disconnected'', className = [''stat-value'', ''status-off'']\<rparr>\<rparr>)
         \<lparr>last_update := last_update (room_dom_loaded\<lparr>last_update := ''Just now''\<rparr>)\<rparr>)"
    by blast
  then have prior: "updateUI sample_runtime (JObj []) systemState_init
       (room_dom_loaded\<lparr>last_update := ''Just now''\<rparr>) =
     Done (room_dom_loaded\<lparr>
       light_status := \<lparr>textContent = ''OFF'', className = [''status-value'', ''status-off'']\<rparr>,
       light_icon := DimBulb,
       door_status := \<lparr>textContent = ''CLOSED'', className = [''status-value'', ''status-inactive'']\<rparr>,
       door_icon := Door,
       presence_status := \<lparr>textContent = ''NONE'', className = [''status-value'', ''status-inactive'']\<rparr>,
       presence_icon := Person,
       luminosity_value := ''0'',
       luminosity_icon := NewMoon,
       override_status := \<lparr>textContent = ''OFF'', className = [''status-value'', ''status-off'']\<rparr>,
       override_icon := Locked,
       toggle_override := ''Enable Override'',
       users_list := [NoUsers],
       arduino_status := \<lparr>textContent = ''Disconnected'', className = [''stat-value'', ''status-off'']\<rparr>,
       last_update := ''Just now''\<rparr>)"
    by simp
  from r idem prior show ?thesis by blast
qed

text \<open>
  C8 as stated fails for the users list: the same room state, with user \<^verbatim>\<open>1\<close> in
  the room, renders as \<^verbatim>\<open>User 1\<close> while the directory is empty and as
  \<^verbatim>\<open>Ana\<close> once \<^verbatim>\<open>fetchUsers\<close> has stored a directory that knows the user.
\<close>

theorem users_list_depends_on_directory:
  "users_list (state_of (updateUI sample_runtime (JObj [])
      [(''users_in_room'', JArr [JStr ''1''])] room_dom_loaded)) = [UserItem ''User 1'']
   \<and> users_list (state_of (updateUI sample_runtime (JObj [(''1'', JObj [(''name'', JStr ''Ana'')])])
      [(''users_in_room'', JArr [JStr ''1''])] room_dom_loaded)) = [UserItem ''Ana'']"
  by (simp add: updateUI_def updateUsersInRoom_def updateLightStatus_def updateDoorStatus_def
        updatePresenceStatus_def updateLuminosityStatus_def updateOverrideStatus_def
        updateArduinoStatus_def js_gt_def ToNumber_def get_prop_def read_prop_def ToString_def
        Let_def)

end
